theory Spec2Isabelle
  imports Complex_Main
begin

section \<open>JavaScript values used by the routes\<close>

text \<open>
  The server code (\<^verbatim>\<open>registerRoutes\<close>) works on loosely typed values: a spreadsheet row is
  an object from column headers to cells, a cell is a string, a number, a boolean or is
  absent (\<^verbatim>\<open>undefined\<close>).

  A JavaScript Number is modelled as an exact rational, plus \<^verbatim>\<open>NaN\<close> and the two
  infinities. The sign of zero is not modelled: \<^verbatim>\<open>-0\<close> is \<open>Fin 0\<close> (the code only
  tests \<^verbatim>\<open>=== 0\<close> and truthiness, which do not tell the zeros apart). Of the rounding
  to binary64 the range is modelled where a Number is read from text: a magnitude too
  large for a Number is an infinity and one too small is 0. The rounding of a finite
  value to 53 bits is not modelled, and arithmetic is exact.
  A string is the sequence of the bytes of its UTF-8 encoding.
\<close>

datatype jsnum = NaN | PInf | NInf | Fin rat

datatype jsval = JUndefined | JStr string | JNum jsnum | JBool bool

text \<open>A row as \<^verbatim>\<open>XLSX.utils.sheet_to_json\<close> returns it: a missing column reads as
  \<^verbatim>\<open>undefined\<close>.\<close>

type_synonym row = "string \<Rightarrow> jsval"

text \<open>Truthiness: \<^verbatim>\<open>undefined\<close>, \<^verbatim>\<open>''\<close>, \<^verbatim>\<open>0\<close>, \<^verbatim>\<open>NaN\<close> and \<^verbatim>\<open>false\<close> are
  falsy.\<close>

fun num_truthy :: "jsnum \<Rightarrow> bool" where
  "num_truthy NaN = False"
| "num_truthy (Fin q) = (q \<noteq> 0)"
| "num_truthy PInf = True"
| "num_truthy NInf = True"

fun truthy :: "jsval \<Rightarrow> bool" where
  "truthy JUndefined = False"
| "truthy (JStr s) = (s \<noteq> [])"
| "truthy (JNum n) = num_truthy n"
| "truthy (JBool b) = b"

text \<open>\<^verbatim>\<open>a || b\<close> on values, and on numbers (\<^verbatim>\<open>total || (...)\<close>).\<close>

definition js_or :: "jsval \<Rightarrow> jsval \<Rightarrow> jsval" where
  "js_or a b = (if truthy a then a else b)"

definition num_or :: "jsnum \<Rightarrow> jsnum \<Rightarrow> jsnum" where
  "num_or a b = (if num_truthy a then a else b)"

subsection \<open>Arithmetic and comparison of Numbers\<close>

fun js_neg :: "jsnum \<Rightarrow> jsnum" where
  "js_neg NaN = NaN"
| "js_neg PInf = NInf"
| "js_neg NInf = PInf"
| "js_neg (Fin q) = Fin (- q)"

fun js_add :: "jsnum \<Rightarrow> jsnum \<Rightarrow> jsnum" where
  "js_add (Fin a) (Fin b) = Fin (a + b)"
| "js_add NaN _ = NaN"
| "js_add _ NaN = NaN"
| "js_add PInf NInf = NaN"
| "js_add NInf PInf = NaN"
| "js_add PInf _ = PInf"
| "js_add NInf _ = NInf"
| "js_add _ PInf = PInf"
| "js_add _ NInf = NInf"

definition js_sub :: "jsnum \<Rightarrow> jsnum \<Rightarrow> jsnum" where
  "js_sub a b = js_add a (js_neg b)"

text \<open>The sign of a Number that is not \<^verbatim>\<open>NaN\<close>: \<open>-1\<close>, \<open>0\<close> or \<open>1\<close>.\<close>

fun js_sign :: "jsnum \<Rightarrow> int" where
  "js_sign NaN = 0"
| "js_sign PInf = 1"
| "js_sign NInf = - 1"
| "js_sign (Fin q) = (if q < 0 then - 1 else if q = 0 then 0 else 1)"

definition inf_of_sign :: "int \<Rightarrow> jsnum" where
  "inf_of_sign s = (if s < 0 then NInf else PInf)"

fun js_mul :: "jsnum \<Rightarrow> jsnum \<Rightarrow> jsnum" where
  "js_mul (Fin a) (Fin b) = Fin (a * b)"
| "js_mul NaN _ = NaN"
| "js_mul _ NaN = NaN"
| "js_mul (Fin a) b = (if a = 0 then NaN else inf_of_sign (js_sign (Fin a) * js_sign b))"
| "js_mul a (Fin b) = (if b = 0 then NaN else inf_of_sign (js_sign a * js_sign (Fin b)))"
| "js_mul a b = inf_of_sign (js_sign a * js_sign b)"

text \<open>Division: a finite non-zero value over zero is an infinity (the zero is taken as
  \<^verbatim>\<open>+0\<close>), \<^verbatim>\<open>0/0\<close> and \<^verbatim>\<open>Infinity/Infinity\<close> are \<^verbatim>\<open>NaN\<close>.\<close>

fun js_div :: "jsnum \<Rightarrow> jsnum \<Rightarrow> jsnum" where
  "js_div NaN _ = NaN"
| "js_div _ NaN = NaN"
| "js_div (Fin a) (Fin b) =
     (if b \<noteq> 0 then Fin (a / b)
      else if a = 0 then NaN else inf_of_sign (js_sign (Fin a)))"
| "js_div (Fin a) _ = Fin 0"
| "js_div a (Fin b) = inf_of_sign (js_sign a * (if b < 0 then - 1 else 1))"
| "js_div _ _ = NaN"

text \<open>\<^verbatim>\<open>a > b\<close>: false as soon as one side is \<^verbatim>\<open>NaN\<close>.\<close>

fun js_gt :: "jsnum \<Rightarrow> jsnum \<Rightarrow> bool" where
  "js_gt NaN _ = False"
| "js_gt _ NaN = False"
| "js_gt (Fin a) (Fin b) = (a > b)"
| "js_gt PInf b = (b \<noteq> PInf)"
| "js_gt NInf _ = False"
| "js_gt (Fin a) PInf = False"
| "js_gt (Fin a) NInf = True"

subsection \<open>\<^verbatim>\<open>parseInt\<close> and \<^verbatim>\<open>parseFloat\<close>\<close>

text \<open>
  The white space that \<^verbatim>\<open>parseInt\<close> and \<^verbatim>\<open>parseFloat\<close> skip at the start of a string:
  TAB, LF, VT, FF, CR and the space; U+00A0; U+1680, U+2000 to U+200A, U+2028, U+2029,
  U+202F, U+205F, U+3000 and U+FEFF, in their encodings of two and three bytes.
\<close>

definition is_ws :: "char \<Rightarrow> bool" where
  "is_ws c = (c \<in> set [CHR 0x09, CHR 0x0A, CHR 0x0B, CHR 0x0C, CHR 0x0D, CHR '' ''])"

definition is_ws2 :: "char \<Rightarrow> char \<Rightarrow> bool" where
  "is_ws2 a b = (a = CHR 0xC2 \<and> b = CHR 0xA0)"

definition is_ws3 :: "char \<Rightarrow> char \<Rightarrow> char \<Rightarrow> bool" where
  "is_ws3 a b c =
     ((a = CHR 0xE1 \<and> b = CHR 0x9A \<and> c = CHR 0x80)
      \<or> (a = CHR 0xE2 \<and> b = CHR 0x80
           \<and> c \<in> set [CHR 0x80, CHR 0x81, CHR 0x82, CHR 0x83, CHR 0x84, CHR 0x85, CHR 0x86,
                        CHR 0x87, CHR 0x88, CHR 0x89, CHR 0x8A, CHR 0xA8, CHR 0xA9, CHR 0xAF])
      \<or> (a = CHR 0xE2 \<and> b = CHR 0x81 \<and> c = CHR 0x9F)
      \<or> (a = CHR 0xE3 \<and> b = CHR 0x80 \<and> c = CHR 0x80)
      \<or> (a = CHR 0xEF \<and> b = CHR 0xBB \<and> c = CHR 0xBF))"

fun trim_start :: "string \<Rightarrow> string" where
  "trim_start [] = []"
| "trim_start [a] = (if is_ws a then [] else [a])"
| "trim_start [a, b] =
     (if is_ws a then trim_start [b] else if is_ws2 a b then [] else [a, b])"
| "trim_start (a # b # c # s) =
     (if is_ws a then trim_start (b # c # s)
      else if is_ws2 a b then trim_start (c # s)
      else if is_ws3 a b c then trim_start s
      else a # b # c # s)"

text \<open>
  The range of a Number: a value read from text whose magnitude is
  \<open>2\<^sup>1\<^sup>0\<^sup>2\<^sup>4 - 2\<^sup>9\<^sup>7\<^sup>0\<close> or more rounds to an infinity, and one whose magnitude is
  \<open>2\<^sup>-\<^sup>1\<^sup>0\<^sup>7\<^sup>5\<close> or less rounds to 0. A value in between is kept as it is.
\<close>

definition to_number :: "rat \<Rightarrow> jsnum" where
  "to_number q =
     (if 2 ^ 1024 - 2 ^ 970 \<le> \<bar>q\<bar> then (if q < 0 then NInf else PInf)
      else if \<bar>q\<bar> \<le> 1 / 2 ^ 1075 then Fin 0
      else Fin q)"

definition digit_val :: "int \<Rightarrow> char \<Rightarrow> int option" where
  "digit_val radix c =
     (let n = (of_char c :: int);
          v = (if 48 \<le> n \<and> n \<le> 57 then Some (n - 48)
               else if 97 \<le> n \<and> n \<le> 102 then Some (n - 87)
               else if 65 \<le> n \<and> n \<le> 70 then Some (n - 55)
               else None)
      in case v of None \<Rightarrow> None | Some d \<Rightarrow> (if d < radix then Some d else None))"

definition is_digit :: "int \<Rightarrow> char \<Rightarrow> bool" where
  "is_digit radix c = (digit_val radix c \<noteq> None)"

definition digits_val :: "int \<Rightarrow> string \<Rightarrow> int" where
  "digits_val radix ds =
     foldl (\<lambda>a c. a * radix + (case digit_val radix c of None \<Rightarrow> 0 | Some d \<Rightarrow> d)) 0 ds"

text \<open>An optional sign in front of a numeric literal.\<close>

fun strip_sign :: "string \<Rightarrow> int \<times> string" where
  "strip_sign [] = (1, [])"
| "strip_sign (c # cs) =
     (if c = CHR ''-'' then (- 1, cs) else if c = CHR ''+'' then (1, cs) else (1, c # cs))"

definition has_prefix :: "string \<Rightarrow> string \<Rightarrow> bool" where
  "has_prefix p s = (take (length p) s = p)"

text \<open>
  \<^verbatim>\<open>parseInt(s)\<close> with no radix: leading white space is dropped, then an optional sign,
  then \<^verbatim>\<open>0x\<close>/\<^verbatim>\<open>0X\<close> selects radix 16; the longest prefix of digits is the value, an
  infinity when it is out of range, and there being none gives \<^verbatim>\<open>NaN\<close>.
\<close>

definition parseInt_str :: "string \<Rightarrow> jsnum" where
  "parseInt_str s =
     (let (sign, s2) = strip_sign (trim_start s);
          hex = (has_prefix ''0x'' s2 \<or> has_prefix ''0X'' s2);
          radix = (if hex then 16 else 10);
          s3 = (if hex then drop 2 s2 else s2);
          ds = takeWhile (is_digit radix) s3
      in if ds = [] then NaN else to_number (of_int (sign * digits_val radix ds)))"

text \<open>
  \<^verbatim>\<open>parseFloat(s)\<close>: leading white space is dropped; the longest prefix that is a
  decimal literal (sign, \<^verbatim>\<open>Infinity\<close> or digits with an optional fraction and an optional
  exponent) is the value, brought into the range of a Number, and there being none gives
  \<^verbatim>\<open>NaN\<close>.
\<close>

definition exponent_part :: "string \<Rightarrow> int" where
  "exponent_part s =
     (case s of
        [] \<Rightarrow> 0
      | c # cs \<Rightarrow>
          (if c = CHR ''e'' \<or> c = CHR ''E'' then
             (let (sign, r) = strip_sign cs; ds = takeWhile (is_digit 10) r
              in if ds = [] then 0 else sign * digits_val 10 ds)
           else 0))"

definition scale10 :: "rat \<Rightarrow> int \<Rightarrow> rat" where
  "scale10 m e = (if 0 \<le> e then m * 10 ^ nat e else m / 10 ^ nat (- e))"

definition parseFloat_str :: "string \<Rightarrow> jsnum" where
  "parseFloat_str s =
     (let (sign, s2) = strip_sign (trim_start s)
      in if has_prefix ''Infinity'' s2 then (if sign < 0 then NInf else PInf)
         else
           (let intd = takeWhile (is_digit 10) s2;
                r1 = dropWhile (is_digit 10) s2;
                dot = has_prefix ''.'' r1;
                fracd = (if dot then takeWhile (is_digit 10) (drop 1 r1) else []);
                r2 = (if dot then dropWhile (is_digit 10) (drop 1 r1) else r1)
            in if intd = [] \<and> fracd = [] then NaN
               else to_number (scale10
                      (of_int sign *
                         (of_int (digits_val 10 intd)
                            + of_int (digits_val 10 fracd) / 10 ^ length fracd))
                      (exponent_part r2))))"

text \<open>
  A number argument is first turned into a string. \<^verbatim>\<open>parseFloat\<close> reads that string
  back to the same number. \<^verbatim>\<open>parseInt\<close> reads the digits before the decimal point:
  the integer part for \<open>10\<^sup>-\<^sup>6 \<le> |x| < 10\<^sup>2\<^sup>1\<close>, and only the first significant digit
  outside that range, where the string is in exponent notation (\<^verbatim>\<open>parseInt(5e-7)\<close> is 5).
\<close>

function msd :: "int \<Rightarrow> int" where
  "msd n = (if n < 10 then n else msd (n div 10))"
  by pat_completeness auto
termination
  by (relation "measure nat") auto

function msd_frac :: "int \<Rightarrow> int \<Rightarrow> int" where
  "msd_frac p q = (if p \<le> 0 \<or> q \<le> p then p div q else msd_frac (10 * p) q)"
  by pat_completeness auto
termination
  by (relation "measure (\<lambda>(p, q). nat (q - p))") auto

declare msd.simps [simp del]
declare msd_frac.simps [simp del]

definition first_digit :: "rat \<Rightarrow> int" where
  "first_digit a =
     (if 1 \<le> a then msd \<lfloor>a\<rfloor>
      else (let (p, q) = quotient_of a in msd_frac p q))"

fun parseInt_num :: "jsnum \<Rightarrow> jsnum" where
  "parseInt_num (Fin x) =
     (let a = \<bar>x\<bar>; sign = (if x < 0 then - 1 else 1 :: int)
      in if a = 0 then Fin 0
         else if 1 / 10 ^ 6 \<le> a \<and> a < 10 ^ 21 then Fin (of_int (sign * \<lfloor>a\<rfloor>))
         else Fin (of_int (sign * first_digit a)))"
| "parseInt_num _ = NaN"

fun parseInt :: "jsval \<Rightarrow> jsnum" where
  "parseInt (JStr s) = parseInt_str s"
| "parseInt (JNum n) = parseInt_num n"
| "parseInt (JBool b) = NaN"
| "parseInt JUndefined = NaN"

fun parseFloat :: "jsval \<Rightarrow> jsnum" where
  "parseFloat (JStr s) = parseFloat_str s"
| "parseFloat (JNum n) = n"
| "parseFloat (JBool b) = NaN"
| "parseFloat JUndefined = NaN"

section \<open>The upload route: from a row to a record\<close>

text \<open>The candidate the loop body builds (\<^verbatim>\<open>InsertSalesData\<close>) and the stored record
  (\<^verbatim>\<open>SalesData\<close>, the candidate with the identifier the store gives it). The field
  \<^verbatim>\<open>total\<close> is \<open>total_val\<close> and \<^verbatim>\<open>id\<close> is \<open>id_val\<close> here. \<^verbatim>\<open>state\<close> and
  \<^verbatim>\<open>city\<close> are whatever the cell holds, the coordinates and the figures are Numbers.\<close>

record InsertSalesData =
  state :: jsval
  city :: jsval
  latitude :: jsnum
  longitude :: jsnum
  sales2022 :: jsnum
  sales2023 :: jsnum
  sales2024 :: jsnum
  sales2025 :: jsnum
  total_val :: jsnum

record SalesData = InsertSalesData +
  id_val :: nat

text \<open>The two environment variables the upload route reads.\<close>

record env =
  GOOGLE_MAP_API :: "string option"
  GOOGLE_GEOCODING_API :: "string option"

definition str_truthy :: "string option \<Rightarrow> bool" where
  "str_truthy k = (case k of None \<Rightarrow> False | Some s \<Rightarrow> s \<noteq> [])"

definition apiKey :: "env \<Rightarrow> string option" where
  "apiKey e = (if str_truthy (GOOGLE_MAP_API e) then GOOGLE_MAP_API e else GOOGLE_GEOCODING_API e)"

text \<open>
  The geocoding service is outside the program. Its reply to the request the loop body
  sends (built from the key and from \<^verbatim>\<open>`${city}, ${state}, India`\<close>) is a parameter: either
  the \<^verbatim>\<open>try\<close> block throws (the URL cannot be encoded, \<^verbatim>\<open>fetch\<close> rejects, the body is
  not JSON, the reply lacks the fields read), or the reply has a status and a list of
  results, each with the \<^verbatim>\<open>lat\<close> and \<^verbatim>\<open>lng\<close> of its \<^verbatim>\<open>geometry.location\<close>, which the
  code takes to be Numbers.
\<close>

datatype geocode_reply = GeoThrows | GeoData string "(jsnum \<times> jsnum) list"

type_synonym geocoder = "string \<Rightarrow> jsval \<Rightarrow> jsval \<Rightarrow> geocode_reply"

text \<open>The fallback of lines 94-95, 100-101 and 105-106: the row's own columns.\<close>

definition excel_coordinates :: "row \<Rightarrow> jsnum \<times> jsnum" where
  "excel_coordinates rowData =
     (parseFloat (js_or (js_or (rowData ''Latitude'') (rowData ''latitude'')) (JStr ''0'')),
      parseFloat (js_or (js_or (rowData ''Longitude'') (rowData ''longitude'')) (JStr ''0'')))"

text \<open>Lines 76-107: the coordinates of a row.\<close>

definition coordinates :: "env \<Rightarrow> geocoder \<Rightarrow> row \<Rightarrow> jsval \<Rightarrow> jsval \<Rightarrow> jsnum \<times> jsnum" where
  "coordinates e geocode rowData state_v city_v =
     (if str_truthy (apiKey e) \<and> truthy state_v \<and> truthy city_v then
        (case geocode (case apiKey e of None \<Rightarrow> [] | Some k \<Rightarrow> k) city_v state_v of
           GeoThrows \<Rightarrow> excel_coordinates rowData
         | GeoData st results \<Rightarrow>
             (if st = ''OK'' \<and> length results > 0 then results ! 0
              else excel_coordinates rowData))
      else excel_coordinates rowData)"

text \<open>Lines 72-73: \<^verbatim>\<open>state\<close> and \<^verbatim>\<open>city\<close>, from either header.\<close>

definition row_state :: "row \<Rightarrow> jsval" where
  "row_state rowData = js_or (js_or (rowData ''State'') (rowData ''state'')) (JStr [])"

definition row_city :: "row \<Rightarrow> jsval" where
  "row_city rowData = js_or (js_or (rowData ''City'') (rowData ''city'')) (JStr [])"

text \<open>Line 112: the \<^verbatim>\<open>Total\<close> column, from either header, read as an integer.\<close>

definition row_total :: "row \<Rightarrow> jsnum" where
  "row_total rowData =
     parseInt (js_or (js_or (rowData ''Total'') (rowData ''total'')) (JStr ''0''))"

text \<open>Lines 71-128: the loop body up to the schema validation. \<open>None\<close> is the
  \<^verbatim>\<open>continue\<close> of line 115.\<close>

definition candidate :: "env \<Rightarrow> geocoder \<Rightarrow> row \<Rightarrow> InsertSalesData option" where
  "candidate e geocode rowData =
     (let state_v = row_state rowData;
          city_v = row_city rowData;
          (lat, lng) = coordinates e geocode rowData state_v city_v;
          s2022 = parseInt (js_or (rowData ''2022'') (JStr ''0''));
          s2023 = parseInt (js_or (rowData ''2023'') (JStr ''0''));
          s2024 = parseInt (js_or (rowData ''2024'') (JStr ''0''));
          s2025 = parseInt (js_or (rowData ''2025'') (JStr ''0''));
          tot = row_total rowData
      in if \<not> truthy state_v \<or> \<not> truthy city_v \<or> lat = Fin 0 \<or> lng = Fin 0 then None
         else Some \<lparr> state = state_v, city = city_v, latitude = lat, longitude = lng,
                     sales2022 = s2022, sales2023 = s2023, sales2024 = s2024, sales2025 = s2025,
                     total_val = num_or tot (js_add (js_add (js_add s2022 s2023) s2024) s2025) \<rparr>)"

text \<open>
  Modelled from the spec: the schema \<^verbatim>\<open>insertSalesDataSchema\<close> of \<^verbatim>\<open>@shared/schema\<close> is not
  among the sources. The spec has it as the final validation of the candidate, a type and
  required-field check whose failure skips the row. Which candidates pass is the parameter
  \<open>valid\<close>; a candidate that passes is kept as it is.
\<close>

definition insertSalesDataSchema_parse ::
  "(InsertSalesData \<Rightarrow> bool) \<Rightarrow> InsertSalesData \<Rightarrow> InsertSalesData option" where
  "insertSalesDataSchema_parse valid c = (if valid c then Some c else None)"

text \<open>
  Modelled from the spec: one such check, after the field types of the spec's data model:
  \<^verbatim>\<open>state\<close> and \<^verbatim>\<open>city\<close> are text, the coordinates are numbers, the yearly figures and
  the total are integers. It gives the examples a schema to run with.
\<close>

definition is_text :: "jsval \<Rightarrow> bool" where
  "is_text v = (case v of JStr _ \<Rightarrow> True | _ \<Rightarrow> False)"

definition is_number :: "jsnum \<Rightarrow> bool" where
  "is_number n = (n \<noteq> NaN)"

definition is_integer :: "jsnum \<Rightarrow> bool" where
  "is_integer n = (case n of Fin q \<Rightarrow> of_int \<lfloor>q\<rfloor> = q | _ \<Rightarrow> False)"

definition schema_typecheck :: "InsertSalesData \<Rightarrow> bool" where
  "schema_typecheck c =
     (is_text (state c) \<and> is_text (city c) \<and> is_number (latitude c) \<and> is_number (longitude c)
      \<and> is_integer (sales2022 c) \<and> is_integer (sales2023 c) \<and> is_integer (sales2024 c)
      \<and> is_integer (sales2025 c) \<and> is_integer (total_val c))"

text \<open>Lines 69-136: one turn of the loop. A row is skipped (\<open>None\<close>) by the
  \<^verbatim>\<open>continue\<close> of line 115 or by the \<^verbatim>\<open>catch\<close> of line 133 when the schema throws.\<close>

definition normalizeRow ::
  "env \<Rightarrow> geocoder \<Rightarrow> (InsertSalesData \<Rightarrow> bool) \<Rightarrow> row \<Rightarrow> InsertSalesData option" where
  "normalizeRow e geocode valid rowData =
     (case candidate e geocode rowData of
        None \<Rightarrow> None
      | Some c \<Rightarrow> insertSalesDataSchema_parse valid c)"

text \<open>Lines 66-137: the loop, pushing the accepted rows in order.\<close>

fun salesDataArray ::
  "env \<Rightarrow> geocoder \<Rightarrow> (InsertSalesData \<Rightarrow> bool) \<Rightarrow> row list \<Rightarrow> InsertSalesData list" where
  "salesDataArray e geocode valid [] = []"
| "salesDataArray e geocode valid (r # rs) =
     (case normalizeRow e geocode valid r of
        None \<Rightarrow> salesDataArray e geocode valid rs
      | Some c \<Rightarrow> c # salesDataArray e geocode valid rs)"

section \<open>The record store\<close>

text \<open>
  Modelled from the spec: the module \<^verbatim>\<open>./storage\<close> is not among the sources. The spec has
  the Record Store as a collection of records with insert-many, read-all and clear-all,
  empty at the start, which gives each record an opaque unique identifier when it is
  inserted. Here the collection is a list in insertion order and the identifiers come from
  a counter that is never reused. The operations always succeed: a failing store, which
  the routes answer with a 500 response from their \<^verbatim>\<open>catch\<close> blocks, is not modelled.
\<close>

record storage =
  salesData :: "SalesData list"
  currentId :: nat

definition MemStorage :: storage where
  "MemStorage = \<lparr> salesData = [], currentId = 1 \<rparr>"

definition with_id :: "InsertSalesData \<Rightarrow> nat \<Rightarrow> SalesData" where
  "with_id c n =
     \<lparr> state = state c, city = city c, latitude = latitude c, longitude = longitude c,
       sales2022 = sales2022 c, sales2023 = sales2023 c, sales2024 = sales2024 c,
       sales2025 = sales2025 c, total_val = total_val c, id_val = n \<rparr>"

definition without_id :: "SalesData \<Rightarrow> InsertSalesData" where
  "without_id r =
     \<lparr> state = state r, city = city r, latitude = latitude r, longitude = longitude r,
       sales2022 = sales2022 r, sales2023 = sales2023 r, sales2024 = sales2024 r,
       sales2025 = sales2025 r, total_val = total_val r \<rparr>"

fun assign_ids :: "nat \<Rightarrow> InsertSalesData list \<Rightarrow> SalesData list" where
  "assign_ids n [] = []"
| "assign_ids n (c # cs) = with_id c n # assign_ids (Suc n) cs"

definition getAllSalesData :: "storage \<Rightarrow> SalesData list" where
  "getAllSalesData st = salesData st"

definition clearSalesData :: "storage \<Rightarrow> storage" where
  "clearSalesData st = st \<lparr> salesData := [] \<rparr>"

definition createMultipleSalesData :: "InsertSalesData list \<Rightarrow> storage \<Rightarrow> SalesData list \<times> storage" where
  "createMultipleSalesData cs st =
     (let inserted = assign_ids (currentId st) cs
      in (inserted, st \<lparr> salesData := salesData st @ inserted,
                          currentId := currentId st + length cs \<rparr>))"

section \<open>Requests and responses\<close>

text \<open>
  An uploaded file as the route sees it: its declared MIME type, its size in bytes, and
  what \<^verbatim>\<open>XLSX.read\<close> followed by \<^verbatim>\<open>sheet_to_json\<close> on the first sheet makes of its bytes:
  the rows, or an exception (with its message when it is an \<^verbatim>\<open>Error\<close>).
\<close>

datatype parse_result = ParseThrows "string option" | Rows "row list"

record uploaded_file =
  mimetype :: string
  file_size :: nat
  content :: parse_result

text \<open>The metrics of the analytics route.\<close>

record metrics =
  totalMarkets :: nat
  totalSales2024 :: jsnum
  avgGrowthRate :: jsnum
  marketPenetration :: jsnum
  activeMarkets :: nat
  growthMarkets :: nat
  emergingMarkets :: nat

datatype body =
    Message string
  | Imported string nat "SalesData list"
  | Records "SalesData list"
  | Metrics metrics

record response =
  status :: nat
  body :: body

definition json :: "nat \<Rightarrow> body \<Rightarrow> response" where
  "json code b = \<lparr> status = code, body = b \<rparr>"

text \<open>Decimal digits of a count, for the message of line 150.\<close>

fun show_nat :: "nat \<Rightarrow> string" where
  "show_nat n =
     (if n < 10 then [char_of (48 + n)]
      else show_nat (n div 10) @ [char_of (48 + n mod 10)])"

declare show_nat.simps [simp del]

section \<open>The upload middleware (lines 13-30)\<close>

definition allowedTypes :: "string list" where
  "allowedTypes =
     [''application/vnd.openxmlformats-officedocument.spreadsheetml.sheet'',
      ''application/vnd.ms-excel'',
      ''application/vnd.oasis.opendocument.spreadsheet'']"

definition fileSize :: nat where
  "fileSize = 10 * 1024 * 1024"

datatype upload_error = InvalidFileType | LIMIT_FILE_SIZE

text \<open>\<^verbatim>\<open>fileFilter\<close>: \<open>None\<close> is \<^verbatim>\<open>cb(null, true)\<close>, an error is \<^verbatim>\<open>cb(new Error(...))\<close>.\<close>

definition fileFilter :: "uploaded_file \<Rightarrow> upload_error option" where
  "fileFilter f = (if mimetype f \<in> set allowedTypes then None else Some InvalidFileType)"

text \<open>
  \<^verbatim>\<open>upload.single('file')\<close>: the filter sees the file's header before its bytes are read;
  a file that passes and is larger than the limit is an error; a request without a file
  goes on with \<^verbatim>\<open>req.file\<close> undefined. On an error the route handler is not called.
\<close>

definition upload_single :: "uploaded_file option \<Rightarrow> upload_error + uploaded_file option" where
  "upload_single file =
     (case file of
        None \<Rightarrow> Inr None
      | Some f \<Rightarrow>
          (case fileFilter f of
             Some err \<Rightarrow> Inl err
           | None \<Rightarrow> (if file_size f > fileSize then Inl LIMIT_FILE_SIZE else Inr (Some f))))"

definition error_message :: "upload_error \<Rightarrow> string" where
  "error_message err =
     (case err of
        InvalidFileType \<Rightarrow> ''Invalid file type. Please upload an Excel file.''
      | LIMIT_FILE_SIZE \<Rightarrow> ''File too large'')"

text \<open>
  Modelled from the spec: the error handler of the application, which turns an error of
  the middleware into a response, is not among the sources. The spec has a wrong MIME type
  or an oversize payload as \<^verbatim>\<open>UnsupportedUpload\<close>, a user-visible 400-class message.
\<close>

definition UnsupportedUpload :: "upload_error \<Rightarrow> response" where
  "UnsupportedUpload err = json 400 (Message (error_message err))"

section \<open>The routes\<close>

text \<open>Lines 45-161: the handler of \<^verbatim>\<open>POST /api/upload-excel\<close>, given \<^verbatim>\<open>req.file\<close>.\<close>

definition upload_excel ::
  "env \<Rightarrow> geocoder \<Rightarrow> (InsertSalesData \<Rightarrow> bool) \<Rightarrow> uploaded_file option \<Rightarrow> storage
     \<Rightarrow> response \<times> storage" where
  "upload_excel e geocode valid file st =
     (case file of
        None \<Rightarrow> (json 400 (Message ''No file uploaded''), st)
      | Some f \<Rightarrow>
          (case content f of
             ParseThrows msg \<Rightarrow>
               (json 500 (Message (case msg of Some m \<Rightarrow> m
                                    | None \<Rightarrow> ''Failed to process Excel file'')), st)
           | Rows jsonData \<Rightarrow>
               (let arr = salesDataArray e geocode valid jsonData
                in if length arr = 0 then
                     (json 400 (Message
                        ''No valid data found in the Excel file. Please check the format and required columns.''),
                      st)
                   else
                     (let st1 = clearSalesData st;
                          (insertedData, st2) = createMultipleSalesData arr st1
                      in (json 200
                            (Imported
                               (''Successfully imported '' @ show_nat (length insertedData)
                                  @ '' records'')
                               (length insertedData) insertedData),
                          st2)))))"

text \<open>The route with its middleware.\<close>

definition post_upload_excel ::
  "env \<Rightarrow> geocoder \<Rightarrow> (InsertSalesData \<Rightarrow> bool) \<Rightarrow> uploaded_file option \<Rightarrow> storage
     \<Rightarrow> response \<times> storage" where
  "post_upload_excel e geocode valid file st =
     (case upload_single file of
        Inl err \<Rightarrow> (UnsupportedUpload err, st)
      | Inr file' \<Rightarrow> upload_excel e geocode valid file' st)"

text \<open>Lines 253-260: \<^verbatim>\<open>POST /api/clear-sales-data\<close>.\<close>

definition post_clear_sales_data :: "storage \<Rightarrow> response \<times> storage" where
  "post_clear_sales_data st = (json 200 (Message ''Sales data cleared''), clearSalesData st)"

text \<open>Lines 35-42: \<^verbatim>\<open>GET /api/sales-data\<close>.\<close>

definition get_sales_data :: "storage \<Rightarrow> response \<times> storage" where
  "get_sales_data st = (json 200 (Records (getAllSalesData st)), st)"

section \<open>The analytics route (lines 164-219)\<close>

text \<open>
  Line 185-186: the growth rate in percent that goes into the average. The arithmetic of
  this section is exact. In binary64 a quotient can differ from the exact one in its last
  place, and the tenth that \<^verbatim>\<open>avgGrowthRate\<close> or \<^verbatim>\<open>marketPenetration\<close> is rounded to can
  differ with it. The two market counts compare a quotient of two figures with 0.1 and
  0.5; for figures below about \<open>8 \<times> 10\<^sup>1\<^sup>5\<close> exact and binary64 arithmetic decide these
  comparisons alike.
\<close>

definition growth_rate :: "SalesData \<Rightarrow> jsnum" where
  "growth_rate item =
     (if sales2022 item = Fin 0 then Fin 0
      else js_mul (js_div (js_sub (sales2025 item) (sales2022 item)) (sales2022 item)) (Fin 100))"

text \<open>Line 187: \<^verbatim>\<open>!isNaN(rate) && isFinite(rate)\<close>.\<close>

definition finite_rate :: "jsnum \<Rightarrow> bool" where
  "finite_rate r = (case r of Fin _ \<Rightarrow> True | _ \<Rightarrow> False)"

text \<open>\<^verbatim>\<open>Math.round\<close>: the nearest integer, a half going up.\<close>

fun js_round :: "jsnum \<Rightarrow> jsnum" where
  "js_round (Fin q) = Fin (of_int \<lfloor>q + 1 / 2\<rfloor>)"
| "js_round n = n"

definition round1 :: "jsnum \<Rightarrow> jsnum" where
  "round1 x = js_div (js_round (js_mul x (Fin 10))) (Fin 10)"

text \<open>Lines 195-198 and 199-202: the two filters.\<close>

definition is_growth :: "SalesData \<Rightarrow> bool" where
  "is_growth item =
     (if sales2022 item = Fin 0 then js_gt (sales2025 item) (Fin 0)
      else js_gt (js_div (js_sub (sales2025 item) (sales2022 item)) (sales2022 item))
             (Fin (1 / 10)))"

definition is_emerging :: "SalesData \<Rightarrow> bool" where
  "is_emerging item =
     (if sales2022 item = Fin 0 then js_gt (sales2025 item) (Fin 0)
      else js_gt (js_div (js_sub (sales2025 item) (sales2022 item)) (sales2022 item))
             (Fin (1 / 2)))"

definition analytics :: "SalesData list \<Rightarrow> metrics" where
  "analytics data =
     (if length data = 0 then
        \<lparr> totalMarkets = 0, totalSales2024 = Fin 0, avgGrowthRate = Fin 0,
          marketPenetration = Fin 0, activeMarkets = 0, growthMarkets = 0,
          emergingMarkets = 0 \<rparr>
      else
        (let total_markets = length data;
             total_sales_2024 = foldl (\<lambda>sum item. js_add sum (sales2024 item)) (Fin 0) data;
             growthRates = filter finite_rate (map growth_rate data);
             avg = (if length growthRates > 0
                    then js_div (foldl js_add (Fin 0) growthRates)
                           (Fin (of_nat (length growthRates)))
                    else Fin 0);
             active = length (filter (\<lambda>item. js_gt (total_val item) (Fin 0)) data);
             growth = length (filter is_growth data);
             emerging = length (filter is_emerging data);
             penetration = (if total_markets > 0
                            then js_mul (js_div (Fin (of_nat active)) (Fin (of_nat total_markets)))
                                   (Fin 100)
                            else Fin 0)
         in \<lparr> totalMarkets = total_markets, totalSales2024 = total_sales_2024,
              avgGrowthRate = round1 avg, marketPenetration = round1 penetration,
              activeMarkets = active, growthMarkets = growth, emergingMarkets = emerging \<rparr>))"

definition get_analytics :: "storage \<Rightarrow> response \<times> storage" where
  "get_analytics st = (json 200 (Metrics (analytics (getAllSalesData st))), st)"

text \<open>
  The growth rate in the words of the spec: 0 when \<^verbatim>\<open>sales2022\<close> is 0, otherwise
  \<^verbatim>\<open>(sales2025 - sales2022) / sales2022 * 100\<close>; and the two counts the spec derives from
  it, the records whose rate exceeds 10 and 50 percent.
\<close>

definition spec_growth :: "SalesData \<Rightarrow> jsnum" where
  "spec_growth item =
     (if sales2022 item = Fin 0 then Fin 0
      else js_mul (js_div (js_sub (sales2025 item) (sales2022 item)) (sales2022 item)) (Fin 100))"

definition spec_growthMarkets :: "SalesData list \<Rightarrow> nat" where
  "spec_growthMarkets data = length (filter (\<lambda>item. js_gt (spec_growth item) (Fin 10)) data)"

definition spec_emergingMarkets :: "SalesData list \<Rightarrow> nat" where
  "spec_emergingMarkets data = length (filter (\<lambda>item. js_gt (spec_growth item) (Fin 50)) data)"

text \<open>What the two filters count: a record with a zero base counts as soon as its 2025
  figure is positive, any other record by its rate.\<close>

definition counts_above :: "rat \<Rightarrow> SalesData \<Rightarrow> bool" where
  "counts_above pct item =
     (if sales2022 item = Fin 0 then js_gt (sales2025 item) (Fin 0)
      else js_gt (spec_growth item) (Fin pct))"

text \<open>An example record of the store.\<close>

definition market :: "rat \<Rightarrow> rat \<Rightarrow> SalesData" where
  "market s22 s25 =
     \<lparr> state = JStr ''Karnataka'', city = JStr ''Bengaluru'',
       latitude = Fin (1297 / 100), longitude = Fin (7759 / 100),
       sales2022 = Fin s22, sales2023 = Fin 0, sales2024 = Fin 0, sales2025 = Fin s25,
       total_val = Fin (s22 + s25), id_val = 1 \<rparr>"

section \<open>Notions the properties are stated with\<close>

text \<open>The coordinates the loop body resolves for a row.\<close>

definition row_coordinates :: "env \<Rightarrow> geocoder \<Rightarrow> row \<Rightarrow> jsnum \<times> jsnum" where
  "row_coordinates e geocode rowData =
     coordinates e geocode rowData (row_state rowData) (row_city rowData)"

text \<open>A reply that does not resolve the address: the call threw, the status is not
  \<^verbatim>\<open>OK\<close>, or there are no results.\<close>

definition unresolved :: "geocode_reply \<Rightarrow> bool" where
  "unresolved reply =
     (case reply of GeoThrows \<Rightarrow> True | GeoData st results \<Rightarrow> st \<noteq> ''OK'' \<or> results = [])"

text \<open>The reply the loop body gets for a row, when it asks.\<close>

definition row_reply :: "env \<Rightarrow> geocoder \<Rightarrow> row \<Rightarrow> geocode_reply" where
  "row_reply e geocode rowData =
     geocode (case apiKey e of None \<Rightarrow> [] | Some k \<Rightarrow> k) (row_city rowData) (row_state rowData)"

text \<open>The sum of the four yearly figures of a candidate.\<close>

definition yearly_sum :: "InsertSalesData \<Rightarrow> jsnum" where
  "yearly_sum c = js_add (js_add (js_add (sales2022 c) (sales2023 c)) (sales2024 c)) (sales2025 c)"

text \<open>A Number without a fraction: an integer, an infinity or \<^verbatim>\<open>NaN\<close>.\<close>

definition whole :: "jsnum \<Rightarrow> bool" where
  "whole n = (case n of Fin q \<Rightarrow> of_int \<lfloor>q\<rfloor> = q | _ \<Rightarrow> True)"

text \<open>The value of a number cell without its fraction.\<close>

definition truncated :: "rat \<Rightarrow> int" where
  "truncated x = (if x < 0 then - \<lfloor>- x\<rfloor> else \<lfloor>x\<rfloor>)"

text \<open>The columns of the yearly figures, and all the numeric columns.\<close>

definition year_columns :: "string list" where
  "year_columns = [''2022'', ''2023'', ''2024'', ''2025'']"

definition numeric_columns :: "string list" where
  "numeric_columns = year_columns @ [''Total'', ''total'']"

text \<open>
  The states of the store the program can be in: it starts empty, and each request to a
  route takes it to the state the route leaves. The schema is fixed; the environment, the
  geocoding service and the uploaded file vary from request to request.
\<close>

inductive reachable :: "(InsertSalesData \<Rightarrow> bool) \<Rightarrow> storage \<Rightarrow> bool"
  for valid :: "InsertSalesData \<Rightarrow> bool" where
  start: "reachable valid MemStorage"
| upload: "reachable valid st \<Longrightarrow> reachable valid (snd (post_upload_excel e geocode valid file st))"
| clear: "reachable valid st \<Longrightarrow> reachable valid (snd (post_clear_sales_data st))"
| listing: "reachable valid st \<Longrightarrow> reachable valid (snd (get_sales_data st))"
| metrics: "reachable valid st \<Longrightarrow> reachable valid (snd (get_analytics st))"

section \<open>Example inputs\<close>

text \<open>A row from its cells.\<close>

definition row_of :: "(string \<times> jsval) list \<Rightarrow> row" where
  "row_of cells k = (case map_of cells k of None \<Rightarrow> JUndefined | Some v \<Rightarrow> v)"

definition no_key :: env where
  "no_key = \<lparr> GOOGLE_MAP_API = None, GOOGLE_GEOCODING_API = None \<rparr>"

definition with_key :: env where
  "with_key = \<lparr> GOOGLE_MAP_API = None, GOOGLE_GEOCODING_API = Some ''secret'' \<rparr>"

definition service_down :: geocoder where
  "service_down k c s = GeoThrows"

definition zero_results :: geocoder where
  "zero_results k c s = GeoData ''ZERO_RESULTS'' []"

text \<open>The example row of the spec, and the record it becomes.\<close>

definition bengaluru :: row where
  "bengaluru =
     row_of [(''State'', JStr ''Karnataka''), (''City'', JStr ''Bengaluru''),
             (''2022'', JNum (Fin 100)), (''2025'', JNum (Fin 150)),
             (''Latitude'', JNum (Fin (1297 / 100))), (''Longitude'', JNum (Fin (7759 / 100)))]"

definition bengaluru_record :: InsertSalesData where
  "bengaluru_record =
     \<lparr> state = JStr ''Karnataka'', city = JStr ''Bengaluru'',
       latitude = Fin (1297 / 100), longitude = Fin (7759 / 100),
       sales2022 = Fin 100, sales2023 = Fin 0, sales2024 = Fin 0, sales2025 = Fin 150,
       total_val = Fin 250 \<rparr>"

text \<open>Rows with no usable location, with a blank state, with text where a number is
  expected, and with a fractional total.\<close>

definition nowhere :: row where
  "nowhere = row_of [(''State'', JStr ''Goa''), (''City'', JStr ''Panaji''), (''2022'', JNum (Fin 7))]"

definition blank_state :: row where
  "blank_state =
     row_of [(''State'', JStr ''   ''), (''City'', JStr ''Mumbai''),
             (''Latitude'', JNum (Fin (1907 / 100))), (''Longitude'', JNum (Fin (7287 / 100)))]"

definition no_state :: row where
  "no_state =
     row_of [(''State'', JStr []), (''City'', JStr ''Mumbai''),
             (''Latitude'', JNum (Fin (1907 / 100))), (''Longitude'', JNum (Fin (7287 / 100)))]"

definition text_year :: row where
  "text_year =
     row_of [(''State'', JStr ''Karnataka''), (''City'', JStr ''Bengaluru''),
             (''2022'', JStr ''abc''), (''2025'', JNum (Fin 150)),
             (''Latitude'', JNum (Fin (1297 / 100))), (''Longitude'', JNum (Fin (7759 / 100)))]"

definition text_latitude :: row where
  "text_latitude =
     row_of [(''State'', JStr ''Karnataka''), (''City'', JStr ''Bengaluru''),
             (''Latitude'', JStr ''abc''), (''Longitude'', JNum (Fin (7759 / 100)))]"


text \<open>Uploaded files.\<close>

definition xlsx :: "row list \<Rightarrow> uploaded_file" where
  "xlsx rows =
     \<lparr> mimetype = ''application/vnd.openxmlformats-officedocument.spreadsheetml.sheet'',
       file_size = 2048, content = Rows rows \<rparr>"

definition pdf :: uploaded_file where
  "pdf = \<lparr> mimetype = ''application/pdf'', file_size = 2048, content = Rows [bengaluru] \<rparr>"

definition oversize :: uploaded_file where
  "oversize = (xlsx [bengaluru]) \<lparr> file_size := 10485761 \<rparr>"

text \<open>A store that holds a record of an earlier upload.\<close>

definition earlier :: storage where
  "earlier = \<lparr> salesData = [market 100 150], currentId = 2 \<rparr>"

text \<open>Six markets: a zero base with and without sales in 2025, and growth of 50, 51, 11
  and 10 percent.\<close>

definition markets :: "SalesData list" where
  "markets = [market 0 5, market 100 150, market 100 151, market 100 111, market 0 0, market 10 11]"

section \<open>Running the model\<close>

text \<open>An equation to run \<open>to_number\<close> with: the ordinary magnitudes are tested first.\<close>

lemma to_number_code [code]:
  "to_number q =
     (if (q = 0 \<or> 1 / 2 ^ 64 \<le> \<bar>q\<bar>) \<and> \<bar>q\<bar> < 2 ^ 64 then Fin q
      else if 2 ^ 1024 - 2 ^ 970 \<le> \<bar>q\<bar> then (if q < 0 then NInf else PInf)
      else if \<bar>q\<bar> \<le> 1 / 2 ^ 1075 then Fin 0
      else Fin q)"
proof -
  have hi: "(2 :: rat) ^ 64 \<le> 2 ^ 1024 - 2 ^ 970" by simp
  have lo: "(1 :: rat) / 2 ^ 1075 < 1 / 2 ^ 64" by simp
  show ?thesis
  proof (cases "(q = 0 \<or> 1 / 2 ^ 64 \<le> \<bar>q\<bar>) \<and> \<bar>q\<bar> < 2 ^ 64")
    case False
    then show ?thesis by (simp only: to_number_def if_False)
  next
    case True
    then have a: "\<not> 2 ^ 1024 - 2 ^ 970 \<le> \<bar>q\<bar>" using hi by linarith
    from True have "q = 0 \<or> \<not> \<bar>q\<bar> \<le> 1 / 2 ^ 1075" using lo by linarith
    then have b: "(if \<bar>q\<bar> \<le> 1 / 2 ^ 1075 then Fin 0 else Fin q) = Fin q" by auto
    from a have "to_number q = (if \<bar>q\<bar> \<le> 1 / 2 ^ 1075 then Fin 0 else Fin q)"
      by (simp only: to_number_def if_False)
    with b have l: "to_number q = Fin q" by simp
    from True have "(if (q = 0 \<or> 1 / 2 ^ 64 \<le> \<bar>q\<bar>) \<and> \<bar>q\<bar> < 2 ^ 64 then Fin q
      else if 2 ^ 1024 - 2 ^ 970 \<le> \<bar>q\<bar> then (if q < 0 then NInf else PInf)
      else if \<bar>q\<bar> \<le> 1 / 2 ^ 1075 then Fin 0
      else Fin q) = Fin q"
      by (rule if_P)
    with l show ?thesis by (rule trans [OF _ sym])
  qed
qed

section \<open>Properties of the analytics route\<close>

lemma js_gt_percent: "js_gt (js_mul x (Fin 100)) (Fin (100 * t)) = js_gt x (Fin t)"
  by (cases x) (auto simp: inf_of_sign_def)

lemma is_growth_counts: "is_growth item = counts_above 10 item"
  using js_gt_percent [of _ "1 / 10"]
  by (simp add: is_growth_def counts_above_def spec_growth_def)

lemma is_emerging_counts: "is_emerging item = counts_above 50 item"
  using js_gt_percent [of _ "1 / 2"]
  by (simp add: is_emerging_def counts_above_def spec_growth_def)

lemma js_gt_half_tenth: "js_gt x (Fin (1 / 2)) \<Longrightarrow> js_gt x (Fin (1 / 10))"
  by (cases x) auto

lemma is_emerging_growth: "is_emerging item \<Longrightarrow> is_growth item"
  by (auto simp: is_emerging_def is_growth_def js_gt_half_tenth split: if_splits)

lemma length_filter_mono:
  "(\<And>x. P x \<Longrightarrow> Q x) \<Longrightarrow> length (filter P xs) \<le> length (filter Q xs)"
  by (induction xs) auto

lemma growthMarkets_analytics: "growthMarkets (analytics data) = length (filter is_growth data)"
  by (cases data) (simp_all add: analytics_def Let_def)

lemma emergingMarkets_analytics: "emergingMarkets (analytics data) = length (filter is_emerging data)"
  by (cases data) (simp_all add: analytics_def Let_def)

text \<open>
  C1, as the spec states it, fails: the spec counts a record by its zero-guarded growth
  rate, which is 0 for a record with \<^verbatim>\<open>sales2022 = 0\<close>, so that such a record is in
  neither count. The route counts a record with \<^verbatim>\<open>sales2022 = 0\<close> and
  \<^verbatim>\<open>sales2025 = 5\<close> as a growth market and as an emerging market.
\<close>

theorem C1_zero_base_counterexample:
  "growthMarkets (analytics [market 0 5]) = 1 \<and> spec_growthMarkets [market 0 5] = 0
   \<and> emergingMarkets (analytics [market 0 5]) = 1 \<and> spec_emergingMarkets [market 0 5] = 0"
  by code_simp

text \<open>
  C1, amended: for every record set, \<^verbatim>\<open>growthMarkets\<close> is the number of records that
  have \<^verbatim>\<open>sales2022 = 0\<close> and \<^verbatim>\<open>sales2025 > 0\<close>, or have \<^verbatim>\<open>sales2022 \<noteq> 0\<close> and a growth
  rate \<^verbatim>\<open>(sales2025 - sales2022) / sales2022 * 100\<close> above 10 percent; and
  \<^verbatim>\<open>emergingMarkets\<close> is the same count with 50 percent.
\<close>

theorem C1_market_counts:
  "growthMarkets (analytics data) =
     length (filter (\<lambda>item. if sales2022 item = Fin 0 then js_gt (sales2025 item) (Fin 0)
                            else js_gt (spec_growth item) (Fin 10)) data)
   \<and> emergingMarkets (analytics data) =
     length (filter (\<lambda>item. if sales2022 item = Fin 0 then js_gt (sales2025 item) (Fin 0)
                            else js_gt (spec_growth item) (Fin 50)) data)"
proof -
  have g: "is_growth = (\<lambda>item. if sales2022 item = Fin 0 then js_gt (sales2025 item) (Fin 0)
                            else js_gt (spec_growth item) (Fin 10))"
    by (rule ext) (simp add: is_growth_counts counts_above_def)
  have m: "is_emerging = (\<lambda>item. if sales2022 item = Fin 0 then js_gt (sales2025 item) (Fin 0)
                            else js_gt (spec_growth item) (Fin 50))"
    by (rule ext) (simp add: is_emerging_counts counts_above_def)
  show ?thesis
    unfolding growthMarkets_analytics emergingMarkets_analytics
    using g m by simp
qed

theorem C1_market_counts_witness:
  "growthMarkets (analytics markets) = 4 \<and> emergingMarkets (analytics markets) = 2"
proof -
  have a: "length (filter (\<lambda>item. if sales2022 item = Fin 0 then js_gt (sales2025 item) (Fin 0)
                            else js_gt (spec_growth item) (Fin 10)) markets) = 4"
    by code_simp
  have b: "length (filter (\<lambda>item. if sales2022 item = Fin 0 then js_gt (sales2025 item) (Fin 0)
                            else js_gt (spec_growth item) (Fin 50)) markets) = 2"
    by code_simp
  from C1_market_counts [of markets] a b show ?thesis by simp
qed

text \<open>
  C10: for every record set, \<^verbatim>\<open>emergingMarkets\<close> is at most \<^verbatim>\<open>growthMarkets\<close>: a record
  the route counts as an emerging market (ratio above 0.5, or a zero base with
  \<^verbatim>\<open>sales2025 > 0\<close>) it also counts as a growth market (ratio above 0.1, or the same
  zero-base branch).
\<close>

theorem C10_emerging_le_growth:
  "emergingMarkets (analytics data) \<le> growthMarkets (analytics data)
   \<and> length (filter is_emerging data) \<le> length (filter is_growth data)"
  unfolding growthMarkets_analytics emergingMarkets_analytics
  by (simp add: length_filter_mono is_emerging_growth)

theorem C10_emerging_le_growth_witness:
  "emergingMarkets (analytics markets) \<le> growthMarkets (analytics markets)"
  using C10_emerging_le_growth [of markets] by (rule conjunct1)

section \<open>Properties of the row normalizer\<close>

lemma candidate_None_iff:
  "candidate e geocode rowData = None \<longleftrightarrow>
     \<not> truthy (row_state rowData) \<or> \<not> truthy (row_city rowData)
     \<or> fst (row_coordinates e geocode rowData) = Fin 0
     \<or> snd (row_coordinates e geocode rowData) = Fin 0"
  by (simp add: candidate_def row_coordinates_def Let_def split: prod.splits)

lemma candidate_Some_fields:
  assumes "candidate e geocode rowData = Some c"
  shows "state c = row_state rowData" and "city c = row_city rowData"
    and "latitude c = fst (row_coordinates e geocode rowData)"
    and "longitude c = snd (row_coordinates e geocode rowData)"
    and "sales2022 c = parseInt (js_or (rowData ''2022'') (JStr ''0''))"
    and "sales2023 c = parseInt (js_or (rowData ''2023'') (JStr ''0''))"
    and "sales2024 c = parseInt (js_or (rowData ''2024'') (JStr ''0''))"
    and "sales2025 c = parseInt (js_or (rowData ''2025'') (JStr ''0''))"
    and "total_val c = num_or (row_total rowData) (yearly_sum c)"
  using assms
  by (auto simp: candidate_def row_coordinates_def yearly_sum_def Let_def
           split: prod.splits if_splits)

lemma candidate_Some_gate:
  assumes "candidate e geocode rowData = Some c"
  shows "truthy (state c)" and "truthy (city c)"
    and "latitude c \<noteq> Fin 0" and "longitude c \<noteq> Fin 0"
proof -
  from assms have n: "candidate e geocode rowData \<noteq> None" by simp
  from n show "truthy (state c)" "truthy (city c)"
    by (simp_all add: candidate_Some_fields [OF assms] candidate_None_iff)
  from n show "latitude c \<noteq> Fin 0" "longitude c \<noteq> Fin 0"
    by (simp_all add: candidate_Some_fields [OF assms] candidate_None_iff)
qed

lemma normalizeRow_Some:
  "normalizeRow e geocode valid rowData = Some c \<longleftrightarrow>
     candidate e geocode rowData = Some c \<and> valid c"
  by (auto simp: normalizeRow_def insertSalesDataSchema_parse_def split: option.splits)

lemma normalizeRow_candidate_None:
  "candidate e geocode rowData = None \<Longrightarrow> normalizeRow e geocode valid rowData = None"
  by (simp add: normalizeRow_def)

lemma salesDataArray_member:
  "c \<in> set (salesDataArray e geocode valid rows) \<Longrightarrow>
     \<exists>r \<in> set rows. normalizeRow e geocode valid r = Some c"
  by (induction rows) (auto split: option.splits)

lemma salesDataArray_map_filter:
  "salesDataArray e geocode valid rows = List.map_filter (normalizeRow e geocode valid) rows"
  by (induction rows) (auto simp: List.map_filter_simps split: option.splits)

lemma salesDataArray_empty:
  "salesDataArray e geocode valid rows = [] \<longleftrightarrow>
     (\<forall>r \<in> set rows. normalizeRow e geocode valid r = None)"
  by (induction rows) (auto split: option.splits)

subsection \<open>The store\<close>

lemma without_id_with_id: "without_id (with_id c n) = c"
  by (simp add: without_id_def with_id_def)

lemma map_without_id_assign_ids: "map without_id (assign_ids n cs) = cs"
  by (induction cs arbitrary: n) (simp_all add: without_id_with_id)

lemma length_assign_ids: "length (assign_ids n cs) = length cs"
  by (induction cs arbitrary: n) simp_all

lemma assign_ids_member:
  "r \<in> set (assign_ids n cs) \<Longrightarrow> \<exists>c \<in> set cs. \<exists>k. r = with_id c k"
  by (induction cs arbitrary: n) auto

lemma with_id_coordinates:
  "latitude (with_id c n) = latitude c" "longitude (with_id c n) = longitude c"
  by (simp_all add: with_id_def)

text \<open>What an accepted upload leaves in the store.\<close>

lemma upload_excel_accepts:
  assumes "content f = Rows rows" and "salesDataArray e geocode valid rows \<noteq> []"
  shows "upload_excel e geocode valid (Some f) st =
     (json 200 (Imported
        (''Successfully imported '' @ show_nat (length (salesDataArray e geocode valid rows))
           @ '' records'')
        (length (salesDataArray e geocode valid rows))
        (assign_ids (currentId st) (salesDataArray e geocode valid rows))),
      \<lparr> salesData = assign_ids (currentId st) (salesDataArray e geocode valid rows),
        currentId = currentId st + length (salesDataArray e geocode valid rows) \<rparr>)"
  using assms
  by (simp add: upload_excel_def Let_def createMultipleSalesData_def clearSalesData_def
        length_assign_ids)

lemma upload_excel_rejects:
  assumes "content f = Rows rows" and "salesDataArray e geocode valid rows = []"
  shows "upload_excel e geocode valid (Some f) st =
     (json 400 (Message
        ''No valid data found in the Excel file. Please check the format and required columns.''),
      st)"
  using assms by (simp add: upload_excel_def)

lemma upload_excel_store:
  "snd (upload_excel e geocode valid file st) = st
   \<or> (\<exists>rows. snd (upload_excel e geocode valid file st) =
        \<lparr> salesData = assign_ids (currentId st) (salesDataArray e geocode valid rows),
          currentId = currentId st + length (salesDataArray e geocode valid rows) \<rparr>)"
proof (cases "file")
  case None
  then show ?thesis by (simp add: upload_excel_def)
next
  case (Some f)
  show ?thesis
  proof (cases "content f")
    case (ParseThrows msg)
    with Some show ?thesis by (simp add: upload_excel_def)
  next
    case (Rows rows)
    show ?thesis
    proof (cases "salesDataArray e geocode valid rows = []")
      case True
      with Some Rows show ?thesis by (simp add: upload_excel_rejects)
    next
      case False
      with Some Rows have "snd (upload_excel e geocode valid file st) =
        \<lparr> salesData = assign_ids (currentId st) (salesDataArray e geocode valid rows),
          currentId = currentId st + length (salesDataArray e geocode valid rows) \<rparr>"
        by (simp add: upload_excel_accepts)
      then show ?thesis by blast
    qed
  qed
qed

lemma post_upload_excel_store:
  "snd (post_upload_excel e geocode valid file st) = st
   \<or> (\<exists>rows. snd (post_upload_excel e geocode valid file st) =
        \<lparr> salesData = assign_ids (currentId st) (salesDataArray e geocode valid rows),
          currentId = currentId st + length (salesDataArray e geocode valid rows) \<rparr>)"
  using upload_excel_store [of e geocode valid _ st]
  by (auto simp: post_upload_excel_def split: sum.splits)

lemma assigned_records_located:
  assumes "r \<in> set (assign_ids n (salesDataArray e geocode valid rows))"
  shows "latitude r \<noteq> Fin 0 \<and> longitude r \<noteq> Fin 0"
proof -
  from assign_ids_member [OF assms] obtain c k
    where c: "c \<in> set (salesDataArray e geocode valid rows)" and r: "r = with_id c k"
    by blast
  from salesDataArray_member [OF c] obtain rowData
    where "normalizeRow e geocode valid rowData = Some c" by blast
  then have "candidate e geocode rowData = Some c" by (simp add: normalizeRow_Some)
  then have "latitude c \<noteq> Fin 0" "longitude c \<noteq> Fin 0" by (rule candidate_Some_gate)+
  with r show ?thesis by (simp add: with_id_coordinates)
qed

lemma reachable_located:
  "reachable valid st \<Longrightarrow> \<forall>r \<in> set (salesData st). latitude r \<noteq> Fin 0 \<and> longitude r \<noteq> Fin 0"
proof (induction rule: reachable.induct)
  case start
  show ?case by (simp add: MemStorage_def)
next
  case (upload st e geocode upl)
  from post_upload_excel_store [of e geocode valid upl st] show ?case
  proof
    assume "snd (post_upload_excel e geocode valid upl st) = st"
    with upload.IH show ?thesis by simp
  next
    assume "\<exists>rows. snd (post_upload_excel e geocode valid upl st) =
        \<lparr> salesData = assign_ids (currentId st) (salesDataArray e geocode valid rows),
          currentId = currentId st + length (salesDataArray e geocode valid rows) \<rparr>"
    then show ?thesis using assigned_records_located by auto
  qed
next
  case (clear st)
  show ?case by (simp add: post_clear_sales_data_def clearSalesData_def)
next
  case (listing st)
  then show ?case by (simp add: get_sales_data_def)
next
  case (metrics st)
  then show ?case by (simp add: get_analytics_def)
qed

text \<open>
  C2: every record the row normalizer accepts has a latitude and a longitude other than
  0; a row whose resolved latitude or longitude is 0, after the geocoding and the fallback
  to the row's own columns, is rejected; and so every record in the store, in every state
  the routes can bring it to, has a latitude and a longitude other than 0.
\<close>

theorem C2_coordinates_nonzero:
  "(normalizeRow e geocode valid rowData = Some c \<longrightarrow>
      latitude c \<noteq> Fin 0 \<and> longitude c \<noteq> Fin 0)
   \<and> (fst (row_coordinates e geocode rowData) = Fin 0
        \<or> snd (row_coordinates e geocode rowData) = Fin 0 \<longrightarrow>
      normalizeRow e geocode valid rowData = None)
   \<and> (reachable valid st \<longrightarrow>
      (\<forall>r \<in> set (salesData st). latitude r \<noteq> Fin 0 \<and> longitude r \<noteq> Fin 0))"
proof (intro conjI impI)
  assume "normalizeRow e geocode valid rowData = Some c"
  then have c: "candidate e geocode rowData = Some c" by (simp add: normalizeRow_Some)
  from c show "latitude c \<noteq> Fin 0" by (rule candidate_Some_gate)
  from c show "longitude c \<noteq> Fin 0" by (rule candidate_Some_gate)
next
  assume "fst (row_coordinates e geocode rowData) = Fin 0
        \<or> snd (row_coordinates e geocode rowData) = Fin 0"
  then have "candidate e geocode rowData = None" by (auto simp: candidate_None_iff)
  then show "normalizeRow e geocode valid rowData = None" by (rule normalizeRow_candidate_None)
next
  assume "reachable valid st"
  then show "\<forall>r \<in> set (salesData st). latitude r \<noteq> Fin 0 \<and> longitude r \<noteq> Fin 0"
    by (rule reachable_located)
qed

theorem C2_coordinates_nonzero_witness:
  "normalizeRow no_key service_down schema_typecheck bengaluru = Some bengaluru_record
   \<and> latitude bengaluru_record \<noteq> Fin 0 \<and> longitude bengaluru_record \<noteq> Fin 0
   \<and> fst (row_coordinates no_key service_down nowhere) = Fin 0
   \<and> normalizeRow no_key service_down schema_typecheck nowhere = None
   \<and> reachable schema_typecheck
       (snd (post_upload_excel no_key service_down schema_typecheck
               (Some (xlsx [nowhere, bengaluru])) MemStorage))
   \<and> list_all (\<lambda>r. latitude r \<noteq> Fin 0 \<and> longitude r \<noteq> Fin 0)
       (salesData (snd (post_upload_excel no_key service_down schema_typecheck
               (Some (xlsx [nowhere, bengaluru])) MemStorage)))"
proof -
  have a: "normalizeRow no_key service_down schema_typecheck bengaluru = Some bengaluru_record"
    by code_simp
  have z: "fst (row_coordinates no_key service_down nowhere) = Fin 0"
    by code_simp
  have r: "reachable schema_typecheck
       (snd (post_upload_excel no_key service_down schema_typecheck
               (Some (xlsx [nowhere, bengaluru])) MemStorage))"
    by (rule reachable.upload [OF reachable.start])
  note t = C2_coordinates_nonzero [of no_key service_down schema_typecheck]
  from t [of bengaluru bengaluru_record] a
  have 1: "latitude bengaluru_record \<noteq> Fin 0 \<and> longitude bengaluru_record \<noteq> Fin 0"
    by blast
  from t [of nowhere] z
  have 2: "normalizeRow no_key service_down schema_typecheck nowhere = None"
    by blast
  from t [of _ _ "snd (post_upload_excel no_key service_down schema_typecheck
               (Some (xlsx [nowhere, bengaluru])) MemStorage)"] r
  have 3: "list_all (\<lambda>r. latitude r \<noteq> Fin 0 \<and> longitude r \<noteq> Fin 0)
       (salesData (snd (post_upload_excel no_key service_down schema_typecheck
               (Some (xlsx [nowhere, bengaluru])) MemStorage)))"
    unfolding list_all_iff by blast
  from a 1 z 2 r 3 show ?thesis by blast
qed

section \<open>Properties of the upload route\<close>

lemma upload_single_accepts:
  "mimetype f \<in> set allowedTypes \<Longrightarrow> file_size f \<le> fileSize \<Longrightarrow>
     upload_single (Some f) = Inr (Some f)"
  by (simp add: upload_single_def fileFilter_def)

lemma post_upload_excel_accepted_file:
  "mimetype f \<in> set allowedTypes \<Longrightarrow> file_size f \<le> fileSize \<Longrightarrow>
     post_upload_excel e geocode valid (Some f) st = upload_excel e geocode valid (Some f) st"
  by (simp add: post_upload_excel_def upload_single_accepts)

lemma length_map_filter_rejected:
  "length (List.map_filter g xs) + length (filter (\<lambda>x. g x = None) xs) = length xs"
  by (induction xs) (auto simp: List.map_filter_simps split: option.splits)

lemma assign_ids_range:
  "r \<in> set (assign_ids n cs) \<Longrightarrow> n \<le> id_val r \<and> id_val r < n + length cs"
proof (induction cs arbitrary: n)
  case Nil
  then show ?case by simp
next
  case (Cons c cs)
  from Cons.prems have "r = with_id c n \<or> r \<in> set (assign_ids (Suc n) cs)" by simp
  then show ?case
  proof
    assume "r = with_id c n"
    then show ?thesis by (simp add: with_id_def)
  next
    assume "r \<in> set (assign_ids (Suc n) cs)"
    from Cons.IH [OF this] show ?thesis by simp
  qed
qed

lemma reachable_ids:
  "reachable valid st \<Longrightarrow> \<forall>r \<in> set (salesData st). id_val r < currentId st"
proof (induction rule: reachable.induct)
  case start
  show ?case by (simp add: MemStorage_def)
next
  case (upload st e geocode upl)
  from post_upload_excel_store [of e geocode valid upl st] show ?case
  proof
    assume "snd (post_upload_excel e geocode valid upl st) = st"
    with upload.IH show ?thesis by simp
  next
    assume "\<exists>rows. snd (post_upload_excel e geocode valid upl st) =
        \<lparr> salesData = assign_ids (currentId st) (salesDataArray e geocode valid rows),
          currentId = currentId st + length (salesDataArray e geocode valid rows) \<rparr>"
    then show ?thesis using assign_ids_range by auto
  qed
next
  case (clear st)
  show ?case by (simp add: post_clear_sales_data_def clearSalesData_def)
next
  case (listing st)
  then show ?case by (simp add: get_sales_data_def)
next
  case (metrics st)
  then show ?case by (simp add: get_analytics_def)
qed

text \<open>
  C3: for every upload of a workbook that parses and of whose rows none passes the
  normalizer, the response is the 400 message "No valid data found ..." and the store is
  left as it was: nothing is cleared.
\<close>

theorem C3_no_valid_rows:
  assumes "mimetype f \<in> set allowedTypes" and "file_size f \<le> fileSize"
    and "content f = Rows rows"
    and "\<forall>r \<in> set rows. normalizeRow e geocode valid r = None"
  shows "post_upload_excel e geocode valid (Some f) st =
     (json 400 (Message
        ''No valid data found in the Excel file. Please check the format and required columns.''),
      st)"
proof -
  from assms(4) have "salesDataArray e geocode valid rows = []"
    by (simp add: salesDataArray_empty)
  with assms(3) have "upload_excel e geocode valid (Some f) st =
     (json 400 (Message
        ''No valid data found in the Excel file. Please check the format and required columns.''),
      st)"
    by (rule upload_excel_rejects)
  with assms(1,2) show ?thesis by (simp add: post_upload_excel_accepted_file)
qed

theorem C3_no_valid_rows_witness:
  "mimetype (xlsx [nowhere, no_state]) \<in> set allowedTypes
   \<and> file_size (xlsx [nowhere, no_state]) \<le> fileSize
   \<and> list_all (\<lambda>r. normalizeRow no_key service_down schema_typecheck r = None)
        [nowhere, no_state]
   \<and> status (fst (post_upload_excel no_key service_down schema_typecheck
                    (Some (xlsx [nowhere, no_state])) earlier)) = 400
   \<and> snd (post_upload_excel no_key service_down schema_typecheck
            (Some (xlsx [nowhere, no_state])) earlier) = earlier"
proof -
  have m: "mimetype (xlsx [nowhere, no_state]) \<in> set allowedTypes"
    by (simp add: xlsx_def allowedTypes_def)
  have s: "file_size (xlsx [nowhere, no_state]) \<le> fileSize"
    by (simp add: xlsx_def fileSize_def)
  have c: "content (xlsx [nowhere, no_state]) = Rows [nowhere, no_state]"
    by (simp add: xlsx_def)
  have n: "list_all (\<lambda>r. normalizeRow no_key service_down schema_typecheck r = None)
        [nowhere, no_state]"
    by code_simp
  then have n': "\<forall>r \<in> set [nowhere, no_state].
      normalizeRow no_key service_down schema_typecheck r = None"
    unfolding list_all_iff .
  from C3_no_valid_rows [OF m s c n', of earlier] m s n show ?thesis
    by (simp add: json_def)
qed

text \<open>
  C4: for every upload of a workbook of which \<open>N > 0\<close> rows pass the normalizer and
  \<open>M\<close> are rejected, the response is a success that reports the count \<open>N\<close> and the
  inserted records, the store then holds exactly the \<open>N\<close> normalized records, in the order
  of their rows, and none of the records it held before, and uploading the same file again
  leaves the same \<open>N\<close> records.
\<close>

theorem C4_replace:
  assumes "mimetype f \<in> set allowedTypes" and "file_size f \<le> fileSize"
    and "content f = Rows rows"
    and "List.map_filter (normalizeRow e geocode valid) rows \<noteq> []"
  shows
    "(let accepted = List.map_filter (normalizeRow e geocode valid) rows;
          first = post_upload_excel e geocode valid (Some f) st;
          second = post_upload_excel e geocode valid (Some f) (snd first)
      in status (fst first) = 200
         \<and> (\<exists>msg. body (fst first) = Imported msg (length accepted) (salesData (snd first)))
         \<and> map without_id (salesData (snd first)) = accepted
         \<and> length accepted + length (filter (\<lambda>r. normalizeRow e geocode valid r = None) rows)
             = length rows
         \<and> (reachable valid st \<longrightarrow> set (salesData (snd first)) \<inter> set (salesData st) = {})
         \<and> status (fst second) = 200
         \<and> map without_id (salesData (snd second)) = accepted)"
proof -
  let ?arr = "salesDataArray e geocode valid rows"
  have arr: "?arr = List.map_filter (normalizeRow e geocode valid) rows"
    by (rule salesDataArray_map_filter)
  with assms(4) have ne: "?arr \<noteq> []" by simp
  have up: "post_upload_excel e geocode valid (Some f) s =
     (json 200 (Imported
        (''Successfully imported '' @ show_nat (length ?arr) @ '' records'')
        (length ?arr) (assign_ids (currentId s) ?arr)),
      \<lparr> salesData = assign_ids (currentId s) ?arr,
        currentId = currentId s + length ?arr \<rparr>)" for s
    using assms(1,2) upload_excel_accepts [OF assms(3) ne]
    by (simp add: post_upload_excel_accepted_file)
  have disj: "set (assign_ids (currentId st) ?arr) \<inter> set (salesData st) = {}"
    if "reachable valid st"
  proof -
    from reachable_ids [OF that] have "\<forall>r \<in> set (salesData st). id_val r < currentId st" .
    moreover have "\<forall>r \<in> set (assign_ids (currentId st) ?arr). currentId st \<le> id_val r"
      using assign_ids_range by blast
    ultimately show ?thesis by fastforce
  qed
  show ?thesis
    unfolding Let_def up arr [symmetric]
    using disj
    by (simp add: json_def map_without_id_assign_ids length_assign_ids arr
          length_map_filter_rejected)
qed

theorem C4_replace_witness:
  "mimetype (xlsx [nowhere, bengaluru, no_state]) \<in> set allowedTypes
   \<and> file_size (xlsx [nowhere, bengaluru, no_state]) \<le> fileSize
   \<and> List.map_filter (normalizeRow no_key service_down schema_typecheck)
        [nowhere, bengaluru, no_state] = [bengaluru_record]
   \<and> reachable schema_typecheck earlier
   \<and> status (fst (post_upload_excel no_key service_down schema_typecheck
                    (Some (xlsx [nowhere, bengaluru, no_state])) earlier)) = 200
   \<and> map without_id (salesData (snd (post_upload_excel no_key service_down schema_typecheck
                    (Some (xlsx [nowhere, bengaluru, no_state])) earlier))) = [bengaluru_record]
   \<and> set (salesData (snd (post_upload_excel no_key service_down schema_typecheck
                    (Some (xlsx [nowhere, bengaluru, no_state])) earlier)))
        \<inter> set (salesData earlier) = {}
   \<and> map without_id (salesData (snd (post_upload_excel no_key service_down schema_typecheck
        (Some (xlsx [nowhere, bengaluru, no_state]))
        (snd (post_upload_excel no_key service_down schema_typecheck
                (Some (xlsx [nowhere, bengaluru, no_state])) earlier))))) = [bengaluru_record]"
proof -
  have m: "mimetype (xlsx [nowhere, bengaluru, no_state]) \<in> set allowedTypes"
    by (simp add: xlsx_def allowedTypes_def)
  have s: "file_size (xlsx [nowhere, bengaluru, no_state]) \<le> fileSize"
    by (simp add: xlsx_def fileSize_def)
  have c: "content (xlsx [nowhere, bengaluru, no_state]) = Rows [nowhere, bengaluru, no_state]"
    by (simp add: xlsx_def)
  have a: "List.map_filter (normalizeRow no_key service_down schema_typecheck)
        [nowhere, bengaluru, no_state] = [bengaluru_record]"
    by code_simp
  then have n: "List.map_filter (normalizeRow no_key service_down schema_typecheck)
        [nowhere, bengaluru, no_state] \<noteq> []"
    by simp
  have "snd (upload_excel no_key service_down schema_typecheck
               (Some (xlsx [bengaluru])) MemStorage) = earlier"
    by code_simp
  then have "snd (post_upload_excel no_key service_down schema_typecheck
               (Some (xlsx [bengaluru])) MemStorage) = earlier"
    by (simp add: post_upload_excel_accepted_file xlsx_def allowedTypes_def fileSize_def)
  with reachable.upload [OF reachable.start, of schema_typecheck no_key service_down
      "Some (xlsx [bengaluru])"]
  have r: "reachable schema_typecheck earlier"
    by simp
  from C4_replace [OF m s c n, of earlier] a r m s show ?thesis
    by (simp add: Let_def)
qed

section \<open>Properties of the numeric columns\<close>

lemma to_number_small_int:
  assumes "0 \<le> v" and "v < 10 ^ 15"
  shows "to_number (of_int v) = Fin (of_int v)"
proof (cases "v = 0")
  case True
  then show ?thesis by (simp add: to_number_def)
next
  case False
  with assms(1) have "1 \<le> v" by simp
  then have one: "(1 :: rat) \<le> of_int v" by (simp only: of_int_1_le_iff)
  then have ab: "\<bar>of_int v :: rat\<bar> = of_int v" by simp
  from assms(2) have "(of_int v :: rat) < of_int (10 ^ 15)" by (simp only: of_int_less_iff)
  then have "(of_int v :: rat) < 10 ^ 15" by simp
  moreover have "(10 :: rat) ^ 15 \<le> 2 ^ 1024 - 2 ^ 970" by simp
  ultimately have a: "\<not> 2 ^ 1024 - 2 ^ 970 \<le> (of_int v :: rat)" by linarith
  have "(1 :: rat) / 2 ^ 1075 < 1" by simp
  with one have b: "\<not> (of_int v :: rat) \<le> 1 / 2 ^ 1075" by linarith
  from a b show ?thesis by (simp only: to_number_def ab if_False)
qed

subsection \<open>What \<^verbatim>\<open>parseInt\<close> returns has no fraction\<close>

lemma whole_Fin: "whole (Fin q) \<longleftrightarrow> (\<exists>k. q = of_int k)"
  by (simp add: whole_def)

lemma whole_other: "whole NaN" "whole PInf" "whole NInf"
  by (simp_all add: whole_def)

lemma whole_to_number: "whole (to_number (of_int k))"
proof -
  have "whole (Fin (of_int k))" "whole (Fin 0)"
    unfolding whole_Fin by (blast, rule exI [of _ 0], simp)
  then show ?thesis by (simp only: to_number_def whole_other split: if_splits) simp
qed

lemma parseInt_str_whole: "whole (parseInt_str s)"
  by (simp add: parseInt_str_def Let_def whole_to_number whole_other
        del: of_int_mult of_int_minus split: prod.splits)

lemma parseInt_num_whole: "whole (parseInt_num n)"
proof (cases n)
  case (Fin x)
  have "whole (Fin (of_int k))" for k unfolding whole_Fin by blast
  moreover have "whole (Fin 0)" unfolding whole_Fin by (rule exI [of _ 0]) simp
  ultimately show ?thesis
    using Fin by (simp add: Let_def del: of_int_mult of_int_minus)
qed (simp_all add: whole_other)

lemma parseInt_whole: "whole (parseInt v)"
  by (cases v) (simp_all add: parseInt_str_whole parseInt_num_whole whole_other)

lemma js_add_whole: "whole a \<Longrightarrow> whole b \<Longrightarrow> whole (js_add a b)"
proof (cases a; cases b)
  fix p q
  assume "whole a" "whole b" "a = Fin p" "b = Fin q"
  then obtain i j where "p = of_int i" "q = of_int j" by (auto simp: whole_Fin)
  then have "p + q = of_int (i + j)" by simp
  then have "whole (Fin (p + q))" unfolding whole_Fin ..
  with \<open>a = Fin p\<close> \<open>b = Fin q\<close> show "whole (js_add a b)" by simp
qed (simp_all add: whole_other)

lemma num_or_whole: "whole a \<Longrightarrow> whole b \<Longrightarrow> whole (num_or a b)"
  by (simp add: num_or_def)

lemma num_truthy_iff: "num_truthy n \<longleftrightarrow> n \<noteq> NaN \<and> n \<noteq> Fin 0"
  by (cases n) auto

subsection \<open>What \<^verbatim>\<open>parseInt\<close> reads from a cell\<close>

lemma parseInt_str_zero: "parseInt_str ''0'' = Fin 0"
  by code_simp

lemma parseInt_falsy: "\<not> truthy v \<Longrightarrow> parseInt (js_or v (JStr ''0'')) = Fin 0"
  by (simp add: js_or_def parseInt_str_zero)


lemma row_total_whole: "whole (row_total rowData)"
  by (simp add: row_total_def parseInt_whole)

text \<open>An integer cell below \<open>10\<^sup>2\<^sup>1\<close> in magnitude is read as itself.\<close>

lemma parseInt_integer_cell:
  assumes "n \<noteq> 0" and "\<bar>n\<bar> < 10 ^ 21"
  shows "parseInt (JNum (Fin (of_int n))) = Fin (of_int n)"
proof -
  have a: "\<bar>of_int n :: rat\<bar> = of_int \<bar>n\<bar>" by simp
  from assms(1) have nz: "(of_int \<bar>n\<bar> :: rat) \<noteq> 0" by simp
  from assms(1) have "1 \<le> \<bar>n\<bar>" by simp
  then have "(1 :: rat) \<le> of_int \<bar>n\<bar>" by (simp only: of_int_1_le_iff)
  moreover have "(1 :: rat) / 10 ^ 6 \<le> 1" by simp
  ultimately have lo: "(1 :: rat) / 10 ^ 6 \<le> of_int \<bar>n\<bar>" by (rule order_trans [rotated])
  from assms(2) have "(of_int \<bar>n\<bar> :: rat) < of_int (10 ^ 21)" by (simp only: of_int_less_iff)
  then have hi: "(of_int \<bar>n\<bar> :: rat) < 10 ^ 21" by simp
  have sg: "(if (of_int n :: rat) < 0 then - 1 else 1) * \<bar>n\<bar> = n" by simp
  have "parseInt_num (Fin (of_int n)) =
      Fin (of_int ((if (of_int n :: rat) < 0 then - 1 else 1) * \<lfloor>of_int \<bar>n\<bar> :: rat\<rfloor>))"
    using nz lo hi by (simp only: parseInt_num.simps Let_def a if_False if_True conj_commute simp_thms)
  also have "\<dots> = Fin (of_int n)" by (simp only: floor_of_int sg)
  finally show ?thesis by simp
qed

lemma parseInt_integer_number:
  assumes "\<bar>n\<bar> < 10 ^ 21"
  shows "parseInt (JNum (Fin (of_int n))) = Fin (of_int n)"
proof (cases "n = 0")
  case True
  then show ?thesis by simp
next
  case False
  from this assms show ?thesis by (rule parseInt_integer_cell)
qed

text \<open>A number cell from \<open>10\<^sup>-\<^sup>6\<close> up to \<open>10\<^sup>2\<^sup>1\<close> in magnitude is read without its fraction.\<close>

lemma parseInt_number_truncated:
  assumes "1 / 10 ^ 6 \<le> \<bar>x\<bar>" and "\<bar>x\<bar> < 10 ^ 21"
  shows "parseInt (JNum (Fin x)) = Fin (of_int (truncated x))"
proof -
  have "(0 :: rat) < 1 / 10 ^ 6" by simp
  with assms(1) have nz: "\<bar>x\<bar> \<noteq> 0" by linarith
  have "parseInt_num (Fin x) = Fin (of_int ((if x < 0 then - 1 else 1) * \<lfloor>\<bar>x\<bar>\<rfloor>))"
    using nz assms by (simp only: parseInt_num.simps Let_def if_False if_True simp_thms)
  also have "(if x < 0 then - 1 else 1) * \<lfloor>\<bar>x\<bar>\<rfloor> = truncated x"
    by (simp add: truncated_def abs_if)
  finally show ?thesis by simp
qed

text \<open>A text cell without a decimal digit is read as \<^verbatim>\<open>NaN\<close>.\<close>

lemma set_trim_start: "set (trim_start s) \<subseteq> set s"
  by (induction s rule: trim_start.induct) auto

lemma set_strip_sign: "strip_sign s = (sign, r) \<Longrightarrow> set r \<subseteq> set s"
  by (cases s) (auto split: if_splits)

lemma is_digit_10: "is_digit 10 c \<longleftrightarrow> 48 \<le> (of_char c :: int) \<and> (of_char c :: int) \<le> 57"
  by (auto simp: is_digit_def digit_val_def Let_def)

lemma is_digit_10_zero: "is_digit 10 (CHR ''0'')"
  by (simp add: is_digit_10)

lemma has_prefix_hex:
  "has_prefix ''0x'' s \<or> has_prefix ''0X'' s \<Longrightarrow> CHR ''0'' \<in> set s"
proof -
  assume "has_prefix ''0x'' s \<or> has_prefix ''0X'' s"
  then show ?thesis
    by (cases s) (auto simp: has_prefix_def)
qed

lemma parseInt_str_no_digit:
  assumes "\<forall>ch \<in> set s. \<not> is_digit 10 ch"
  shows "parseInt_str s = NaN"
proof -
  obtain sign s2 where st: "strip_sign (trim_start s) = (sign, s2)"
    by (cases "strip_sign (trim_start s)")
  from set_strip_sign [OF st] set_trim_start [of s] have sub: "set s2 \<subseteq> set s" by blast
  with assms have nd: "\<forall>ch \<in> set s2. \<not> is_digit 10 ch" by blast
  with is_digit_10_zero have "CHR ''0'' \<notin> set s2" by blast
  with has_prefix_hex [of s2] have nh: "\<not> (has_prefix ''0x'' s2 \<or> has_prefix ''0X'' s2)" by blast
  from nd have "takeWhile (is_digit 10) s2 = []" by (cases s2) simp_all
  with nh st show ?thesis by (simp add: parseInt_str_def)
qed

text \<open>A text cell of up to fifteen decimal digits is read as the number they write.\<close>

lemma digit_val_range:
  "is_digit 10 c \<Longrightarrow> \<exists>d. digit_val 10 c = Some d \<and> 0 \<le> d \<and> d < 10"
  by (auto simp: is_digit_def digit_val_def Let_def split: if_splits)

lemma digits_val_snoc:
  "digits_val r (ds @ [c]) =
     digits_val r ds * r + (case digit_val r c of None \<Rightarrow> 0 | Some d \<Rightarrow> d)"
  by (simp add: digits_val_def)

lemma digits_val_bound:
  "\<forall>ch \<in> set ds. is_digit 10 ch \<Longrightarrow> 0 \<le> digits_val 10 ds \<and> digits_val 10 ds < 10 ^ length ds"
proof (induction ds rule: rev_induct)
  case Nil
  show ?case by (simp add: digits_val_def)
next
  case (snoc c ds)
  then have ih: "0 \<le> digits_val 10 ds" "digits_val 10 ds < 10 ^ length ds" by simp_all
  from snoc.prems have "is_digit 10 c" by simp
  from digit_val_range [OF this] obtain d
    where d: "digit_val 10 c = Some d" "0 \<le> d" "d < 10" by blast
  have v: "digits_val 10 (ds @ [c]) = digits_val 10 ds * 10 + d"
    by (simp add: digits_val_snoc d)
  from ih(2) have "digits_val 10 ds + 1 \<le> 10 ^ length ds" by simp
  then have "(digits_val 10 ds + 1) * 10 \<le> 10 ^ length ds * 10" by simp
  with d(3) have "digits_val 10 ds * 10 + d < 10 ^ length ds * 10" by simp
  with ih(1) d(2) show ?case by (simp add: v)
qed

lemma trim_start_digit:
  assumes "is_digit 10 a"
  shows "trim_start (a # r) = a # r"
proof -
  from assms have n: "\<not> is_ws a" "a \<noteq> CHR 0xC2" "a \<noteq> CHR 0xE1" "a \<noteq> CHR 0xE2"
    "a \<noteq> CHR 0xE3" "a \<noteq> CHR 0xEF"
    by (auto simp: is_digit_10 is_ws_def)
  show ?thesis
  proof (cases r)
    case Nil
    with n show ?thesis by simp
  next
    case (Cons b r')
    with n show ?thesis by (cases r') (simp_all add: is_ws2_def is_ws3_def)
  qed
qed

lemma parseInt_str_digits:
  assumes "ds \<noteq> []" and "\<forall>ch \<in> set ds. is_digit 10 ch" and "length ds \<le> 15"
  shows "parseInt_str ds = Fin (of_int (digits_val 10 ds))"
proof -
  from assms(1) obtain a r where ds: "ds = a # r" by (cases ds) auto
  with assms(2) have a: "is_digit 10 a" by simp
  then have t: "trim_start ds = ds" unfolding ds by (rule trim_start_digit)
  from a have "a \<noteq> CHR ''-''" "a \<noteq> CHR ''+''" by (auto simp: is_digit_10)
  then have s: "strip_sign ds = (1, ds)" by (simp add: ds)
  have "\<not> is_digit 10 (CHR ''x'')" "\<not> is_digit 10 (CHR ''X'')" by (simp_all add: is_digit_10)
  with assms(2) have "CHR ''x'' \<notin> set ds" "CHR ''X'' \<notin> set ds" by blast+
  then have h: "\<not> has_prefix ''0x'' ds" "\<not> has_prefix ''0X'' ds"
    unfolding ds by (cases r; auto simp: has_prefix_def)+
  from assms(2) have w: "takeWhile (is_digit 10) ds = ds" by (simp add: takeWhile_eq_all_conv)
  from digits_val_bound [OF assms(2)]
  have b: "0 \<le> digits_val 10 ds" "digits_val 10 ds < 10 ^ length ds" by simp_all
  from assms(3) have "(10 :: int) ^ length ds \<le> 10 ^ 15" by (rule power_increasing) simp
  with b(2) have "digits_val 10 ds < 10 ^ 15" by linarith
  with b(1) have n: "to_number (of_int (digits_val 10 ds)) = Fin (of_int (digits_val 10 ds))"
    by (rule to_number_small_int)
  show ?thesis
    using assms(1) by (simp add: parseInt_str_def t s h w n)
qed

subsection \<open>The gate does not read the numeric columns\<close>

lemma numeric_column_cases:
  "k \<in> set numeric_columns \<longleftrightarrow>
     k = ''2022'' \<or> k = ''2023'' \<or> k = ''2024'' \<or> k = ''2025'' \<or> k = ''Total'' \<or> k = ''total''"
  by (auto simp: numeric_columns_def year_columns_def)

lemma numeric_column_excel:
  assumes "k \<in> set numeric_columns"
  shows "excel_coordinates (rowData(k := v)) = excel_coordinates rowData"
proof -
  from assms have "k \<noteq> ''Latitude''" "k \<noteq> ''latitude''" "k \<noteq> ''Longitude''" "k \<noteq> ''longitude''"
    by (auto simp: numeric_column_cases)
  then show ?thesis by (simp add: excel_coordinates_def)
qed

lemma coordinates_excel:
  "excel_coordinates r1 = excel_coordinates r2 \<Longrightarrow>
     coordinates e geocode r1 s c = coordinates e geocode r2 s c"
  by (simp add: coordinates_def split: geocode_reply.splits)

lemma numeric_column_gate:
  assumes "k \<in> set numeric_columns"
  shows "row_state (rowData(k := v)) = row_state rowData"
    and "row_city (rowData(k := v)) = row_city rowData"
    and "coordinates e geocode (rowData(k := v)) s c = coordinates e geocode rowData s c"
    and "row_coordinates e geocode (rowData(k := v)) = row_coordinates e geocode rowData"
proof -
  from assms have k: "k \<noteq> ''State''" "k \<noteq> ''state''" "k \<noteq> ''City''" "k \<noteq> ''city''"
    by (auto simp: numeric_column_cases)
  from k show s: "row_state (rowData(k := v)) = row_state rowData"
    by (simp add: row_state_def)
  from k show c: "row_city (rowData(k := v)) = row_city rowData"
    by (simp add: row_city_def)
  show x: "coordinates e geocode (rowData(k := v)) s c = coordinates e geocode rowData s c" for s c
    by (rule coordinates_excel) (rule numeric_column_excel [OF assms])
  show "row_coordinates e geocode (rowData(k := v)) = row_coordinates e geocode rowData"
    by (simp add: row_coordinates_def s c x)
qed

lemma candidate_numeric_column:
  "k \<in> set numeric_columns \<Longrightarrow>
     candidate e geocode (rowData(k := v)) = None \<longleftrightarrow> candidate e geocode rowData = None"
  by (simp add: candidate_None_iff numeric_column_gate)

lemma js_or_falsy: "\<not> truthy v \<Longrightarrow> js_or v x = x"
  by (simp add: js_or_def)

lemma candidate_falsy_as_zero:
  assumes "k \<in> set numeric_columns" and "\<not> truthy v"
  shows "candidate e geocode (rowData(k := v)) = candidate e geocode (rowData(k := JNum (Fin 0)))"
proof -
  have y: "js_or ((rowData(k := v)) j) x = js_or ((rowData(k := JNum (Fin 0))) j) x" for j x
    using assms(2) by (simp add: js_or_falsy)
  have t: "row_total (rowData(k := v)) = row_total (rowData(k := JNum (Fin 0)))"
    using assms(2) by (simp add: row_total_def js_or_def)
  show ?thesis
    unfolding candidate_def numeric_column_gate [OF assms(1)] t y ..
qed

lemma candidate_whole:
  assumes "candidate e geocode rowData = Some c"
  shows "whole (sales2022 c)" and "whole (sales2023 c)"
    and "whole (sales2024 c)" and "whole (sales2025 c)"
    and "whole (total_val c)"
proof -
  note f = candidate_Some_fields [OF assms]
  show y: "whole (sales2022 c)" "whole (sales2023 c)"
    "whole (sales2024 c)" "whole (sales2025 c)"
    by (simp_all add: f parseInt_whole)
  from y have "whole (yearly_sum c)"
    by (simp add: yearly_sum_def js_add_whole)
  then show "whole (total_val c)"
    by (simp add: f(9) num_or_whole row_total_whole)
qed

lemma candidate_total:
  assumes "candidate e geocode rowData = Some c"
  shows "total_val c =
     (if row_total rowData = NaN \<or> row_total rowData = Fin 0 then yearly_sum c
      else row_total rowData)"
  unfolding candidate_Some_fields(9) [OF assms] num_or_def
  using num_truthy_iff [of "row_total rowData"] by auto

lemma parseInt_or_zero:
  "parseInt (js_or v (JStr ''0'')) = (if truthy v then parseInt v else Fin 0)"
  by (simp add: js_or_def parseInt_str_zero)

lemma candidate_year_cells:
  assumes "candidate e geocode rowData = Some c"
  shows "sales2022 c = (if truthy (rowData ''2022'') then parseInt (rowData ''2022'') else Fin 0)"
    and "sales2023 c = (if truthy (rowData ''2023'') then parseInt (rowData ''2023'') else Fin 0)"
    and "sales2024 c = (if truthy (rowData ''2024'') then parseInt (rowData ''2024'') else Fin 0)"
    and "sales2025 c = (if truthy (rowData ''2025'') then parseInt (rowData ''2025'') else Fin 0)"
  by (simp_all only: candidate_Some_fields [OF assms] parseInt_or_zero)

lemma row_total_cells:
  "row_total rowData =
     (if truthy (rowData ''Total'') then parseInt (rowData ''Total'')
      else if truthy (rowData ''total'') then parseInt (rowData ''total'')
      else Fin 0)"
  by (simp add: row_total_def js_or_def parseInt_str_zero)

text \<open>
  C5, as the spec states it, fails: a year cell that holds text without a leading integer
  is read as \<^verbatim>\<open>NaN\<close>, not as 0, and a schema that wants integers then skips the row,
  which it keeps when the cell is missing.
\<close>

theorem C5_text_year_counterexample:
  "text_year ''2022'' = JStr ''abc''
   \<and> map_option sales2022 (candidate no_key service_down text_year) = Some NaN
   \<and> normalizeRow no_key service_down schema_typecheck text_year = None
   \<and> normalizeRow no_key service_down schema_typecheck (text_year(''2022'' := JUndefined))
       \<noteq> None"
  by code_simp

text \<open>
  C5, amended: for every row, each of the year fields 2022 to 2025 is what \<^verbatim>\<open>parseInt\<close>
  reads from the cell of its column, and 0 when the cell is missing, empty or zero; the
  total is read in the same way from \<^verbatim>\<open>Total\<close> or else \<^verbatim>\<open>total\<close>, and the sum of the
  four years stands in for it when it is 0 or \<^verbatim>\<open>NaN\<close>. None of these fields has a
  fraction: each is an integer, \<^verbatim>\<open>NaN\<close> or an infinity. \<^verbatim>\<open>parseInt\<close> reads an integer
  number cell below \<open>10\<^sup>2\<^sup>1\<close> in magnitude as itself, a number cell from \<open>10\<^sup>-\<^sup>6\<close> up to
  \<open>10\<^sup>2\<^sup>1\<close> in magnitude without its fraction, a text cell of up to fifteen decimal digits
  as the number they write, and a text cell without any decimal digit as \<^verbatim>\<open>NaN\<close>, not
  as 0. A missing, empty or zero value never makes the row rejected: the row is normalized
  exactly as if the cell held the number 0, and no value of these columns makes the gate of
  line 114 skip the row. (Whether a row with a \<^verbatim>\<open>NaN\<close> field is kept is up to the schema.)
\<close>

theorem C5_numeric_columns:
  "(k \<in> set numeric_columns \<longrightarrow>
      (candidate e geocode (rowData(k := v)) = None \<longleftrightarrow> candidate e geocode rowData = None)
      \<and> (\<not> truthy v \<longrightarrow>
           normalizeRow e geocode valid (rowData(k := v))
             = normalizeRow e geocode valid (rowData(k := JNum (Fin 0)))))
   \<and> (candidate e geocode rowData = Some c \<longrightarrow>
        sales2022 c = (if truthy (rowData ''2022'') then parseInt (rowData ''2022'') else Fin 0)
        \<and> sales2023 c = (if truthy (rowData ''2023'') then parseInt (rowData ''2023'') else Fin 0)
        \<and> sales2024 c = (if truthy (rowData ''2024'') then parseInt (rowData ''2024'') else Fin 0)
        \<and> sales2025 c = (if truthy (rowData ''2025'') then parseInt (rowData ''2025'') else Fin 0)
        \<and> row_total rowData =
            (if truthy (rowData ''Total'') then parseInt (rowData ''Total'')
             else if truthy (rowData ''total'') then parseInt (rowData ''total'')
             else Fin 0)
        \<and> total_val c =
            (if row_total rowData = NaN \<or> row_total rowData = Fin 0 then yearly_sum c
             else row_total rowData)
        \<and> whole (sales2022 c) \<and> whole (sales2023 c) \<and> whole (sales2024 c)
        \<and> whole (sales2025 c) \<and> whole (total_val c))
   \<and> (\<bar>n\<bar> < 10 ^ 21 \<longrightarrow> parseInt (JNum (Fin (of_int n))) = Fin (of_int n))
   \<and> (1 / 10 ^ 6 \<le> \<bar>x\<bar> \<and> \<bar>x\<bar> < 10 ^ 21 \<longrightarrow>
        parseInt (JNum (Fin x)) = Fin (of_int (truncated x)))
   \<and> (ds \<noteq> [] \<and> (\<forall>ch \<in> set ds. is_digit 10 ch) \<and> length ds \<le> 15 \<longrightarrow>
        parseInt (JStr ds) = Fin (of_int (digits_val 10 ds)))
   \<and> ((\<forall>ch \<in> set s. \<not> is_digit 10 ch) \<longrightarrow> parseInt (JStr s) = NaN)"
proof (intro conjI impI)
  assume k: "k \<in> set numeric_columns"
  from k show "candidate e geocode (rowData(k := v)) = None
      \<longleftrightarrow> candidate e geocode rowData = None"
    by (rule candidate_numeric_column)
  assume "\<not> truthy v"
  with k have "candidate e geocode (rowData(k := v))
      = candidate e geocode (rowData(k := JNum (Fin 0)))"
    by (rule candidate_falsy_as_zero)
  then show "normalizeRow e geocode valid (rowData(k := v))
             = normalizeRow e geocode valid (rowData(k := JNum (Fin 0)))"
    by (simp only: normalizeRow_def)
next
  assume c: "candidate e geocode rowData = Some c"
  from c show
    "sales2022 c = (if truthy (rowData ''2022'') then parseInt (rowData ''2022'') else Fin 0)"
    "sales2023 c = (if truthy (rowData ''2023'') then parseInt (rowData ''2023'') else Fin 0)"
    "sales2024 c = (if truthy (rowData ''2024'') then parseInt (rowData ''2024'') else Fin 0)"
    "sales2025 c = (if truthy (rowData ''2025'') then parseInt (rowData ''2025'') else Fin 0)"
    by (rule candidate_year_cells)+
  show "row_total rowData =
            (if truthy (rowData ''Total'') then parseInt (rowData ''Total'')
             else if truthy (rowData ''total'') then parseInt (rowData ''total'')
             else Fin 0)"
    by (rule row_total_cells)
  from c show "total_val c =
            (if row_total rowData = NaN \<or> row_total rowData = Fin 0 then yearly_sum c
             else row_total rowData)"
    by (rule candidate_total)
  from c show "whole (sales2022 c)" "whole (sales2023 c)" "whole (sales2024 c)"
    "whole (sales2025 c)" "whole (total_val c)"
    by (rule candidate_whole)+
next
  assume "\<bar>n\<bar> < 10 ^ 21"
  then show "parseInt (JNum (Fin (of_int n))) = Fin (of_int n)"
    by (rule parseInt_integer_number)
next
  assume "1 / 10 ^ 6 \<le> \<bar>x\<bar> \<and> \<bar>x\<bar> < 10 ^ 21"
  then have "1 / 10 ^ 6 \<le> \<bar>x\<bar>" "\<bar>x\<bar> < 10 ^ 21" by simp_all
  then show "parseInt (JNum (Fin x)) = Fin (of_int (truncated x))"
    by (rule parseInt_number_truncated)
next
  assume "ds \<noteq> [] \<and> (\<forall>ch \<in> set ds. is_digit 10 ch) \<and> length ds \<le> 15"
  then have "ds \<noteq> []" "\<forall>ch \<in> set ds. is_digit 10 ch" "length ds \<le> 15" by simp_all
  then have "parseInt_str ds = Fin (of_int (digits_val 10 ds))"
    by (rule parseInt_str_digits)
  then show "parseInt (JStr ds) = Fin (of_int (digits_val 10 ds))"
    by (simp only: parseInt.simps)
next
  assume "\<forall>ch \<in> set s. \<not> is_digit 10 ch"
  then have "parseInt_str s = NaN"
    by (rule parseInt_str_no_digit)
  then show "parseInt (JStr s) = NaN"
    by (simp only: parseInt.simps)
qed

theorem C5_numeric_columns_witness:
  "''2023'' \<in> set numeric_columns
   \<and> candidate no_key service_down bengaluru = Some bengaluru_record
   \<and> bengaluru ''2022'' = JNum (Fin 100) \<and> sales2022 bengaluru_record = Fin 100
   \<and> bengaluru ''2023'' = JUndefined \<and> sales2023 bengaluru_record = Fin 0
   \<and> whole (sales2025 bengaluru_record)
   \<and> total_val bengaluru_record = yearly_sum bengaluru_record
   \<and> normalizeRow no_key service_down schema_typecheck (bengaluru(''2023'' := JStr []))
       = normalizeRow no_key service_down schema_typecheck (bengaluru(''2023'' := JNum (Fin 0)))
   \<and> (candidate no_key service_down (bengaluru(''2023'' := JStr ''abc'')) = None)
       = (candidate no_key service_down bengaluru = None)
   \<and> parseInt (JNum (Fin 150)) = Fin 150
   \<and> parseInt (JNum (Fin (127 / 10))) = Fin 12
   \<and> list_all (is_digit 10) ''150'' \<and> parseInt (JStr ''150'') = Fin 150
   \<and> list_all (\<lambda>ch. \<not> is_digit 10 ch) ''abc'' \<and> parseInt (JStr ''abc'') = NaN"
proof -
  have k: "''2023'' \<in> set numeric_columns"
    by (simp add: numeric_columns_def year_columns_def)
  have c: "candidate no_key service_down bengaluru = Some bengaluru_record"
    by code_simp
  have m: "bengaluru ''2022'' = JNum (Fin 100)" "bengaluru ''2023'' = JUndefined"
    "\<not> truthy (JStr [])" "row_total bengaluru = Fin 0"
    by code_simp+
  have d: "list_all (is_digit 10) ''150''" "list_all (\<lambda>ch. \<not> is_digit 10 ch) ''abc''"
    "digits_val 10 ''150'' = 150" "truncated (127 / 10) = 12"
    by code_simp+
  have h1: "\<bar>150 :: int\<bar> < 10 ^ 21" "\<bar>100 :: int\<bar> < 10 ^ 21" by simp_all
  have h2: "(1 :: rat) / 10 ^ 6 \<le> \<bar>127 / 10\<bar> \<and> \<bar>127 / 10 :: rat\<bar> < 10 ^ 21" by simp
  from d(1) have h3: "''150'' \<noteq> [] \<and> (\<forall>ch \<in> set ''150''. is_digit 10 ch) \<and> length ''150'' \<le> 15"
    unfolding list_all_iff by simp
  from d(2) have h4: "\<forall>ch \<in> set ''abc''. \<not> is_digit 10 ch"
    unfolding list_all_iff .
  note t = C5_numeric_columns [of "''2023''" no_key service_down bengaluru _ schema_typecheck
      bengaluru_record]
  note t1 = t [of "JStr []" 150 "127 / 10" "''150''" "''abc''"]
  from t1 c have y22: "sales2022 bengaluru_record =
      (if truthy (bengaluru ''2022'') then parseInt (bengaluru ''2022'') else Fin 0)"
    by blast
  from t1 c have y23: "sales2023 bengaluru_record =
      (if truthy (bengaluru ''2023'') then parseInt (bengaluru ''2023'') else Fin 0)"
    by blast
  from t1 c have w: "whole (sales2025 bengaluru_record)"
    by blast
  from t1 c have tv: "total_val bengaluru_record =
      (if row_total bengaluru = NaN \<or> row_total bengaluru = Fin 0 then yearly_sum bengaluru_record
       else row_total bengaluru)"
    by blast
  from t1 k m(3)
  have nz: "normalizeRow no_key service_down schema_typecheck (bengaluru(''2023'' := JStr []))
       = normalizeRow no_key service_down schema_typecheck (bengaluru(''2023'' := JNum (Fin 0)))"
    by blast
  from t1 h1(1) have "parseInt (JNum (Fin (of_int 150))) = Fin (of_int 150)"
    by blast
  then have p150: "parseInt (JNum (Fin 150)) = Fin 150" by simp
  from t1 h2 have "parseInt (JNum (Fin (127 / 10))) = Fin (of_int (truncated (127 / 10)))"
    by blast
  then have p127: "parseInt (JNum (Fin (127 / 10))) = Fin 12" by (simp add: d(4))
  from t1 h3 have "parseInt (JStr ''150'') = Fin (of_int (digits_val 10 ''150''))"
    by blast
  then have pstr: "parseInt (JStr ''150'') = Fin 150" by (simp add: d(3))
  from t1 h4 have pabc: "parseInt (JStr ''abc'') = NaN"
    by blast
  note t2 = t [of "JStr ''abc''" 100]
  from t2 k
  have g: "(candidate no_key service_down (bengaluru(''2023'' := JStr ''abc'')) = None)
       = (candidate no_key service_down bengaluru = None)"
    by blast
  from t2 h1(2) have "parseInt (JNum (Fin (of_int 100))) = Fin (of_int 100)"
    by blast
  then have p100: "parseInt (JNum (Fin 100)) = Fin 100" by simp
  from y22 have s22: "sales2022 bengaluru_record = Fin 100"
    by (simp only: m(1) p100 truthy.simps num_truthy.simps) simp
  from y23 have s23: "sales2023 bengaluru_record = Fin 0"
    by (simp only: m(2) truthy.simps if_False)
  from tv have tot: "total_val bengaluru_record = yearly_sum bengaluru_record"
    by (simp only: m(4) simp_thms if_True)
  show ?thesis
    by (intro conjI) (fact k c m(1) s22 m(2) s23 w tot nz g p150 p127 d(1) pstr d(2) pabc)+
qed




section \<open>Properties of the state, the city and the coordinates\<close>

lemma row_state_falsy:
  "\<not> truthy (rowData ''State'') \<Longrightarrow> \<not> truthy (rowData ''state'') \<Longrightarrow>
     \<not> truthy (row_state rowData)"
  by (simp add: row_state_def js_or_def)

lemma row_city_falsy:
  "\<not> truthy (rowData ''City'') \<Longrightarrow> \<not> truthy (rowData ''city'') \<Longrightarrow>
     \<not> truthy (row_city rowData)"
  by (simp add: row_city_def js_or_def)

text \<open>
  C7, as the spec states it, fails: the values are not trimmed, and a row whose state is
  three spaces is accepted.
\<close>

theorem C7_blank_state_counterexample:
  "blank_state ''State'' = JStr ''   ''
   \<and> map_option state (normalizeRow no_key service_down schema_typecheck blank_state)
       = Some (JStr ''   '')"
  by code_simp

text \<open>
  C7, amended: for every row whose state or city is missing or empty under both header
  casings (absent, the empty string, or another falsy value), the row normalizer rejects
  the row regardless of all its other fields, of the environment, of the geocoding
  service and of the schema. The values are not trimmed: white space alone is not empty.
\<close>

theorem C7_missing_state_or_city:
  assumes "(\<not> truthy (rowData ''State'') \<and> \<not> truthy (rowData ''state''))
           \<or> (\<not> truthy (rowData ''City'') \<and> \<not> truthy (rowData ''city''))"
  shows "normalizeRow e geocode valid rowData = None"
proof -
  from assms have "\<not> truthy (row_state rowData) \<or> \<not> truthy (row_city rowData)"
    using row_state_falsy row_city_falsy by blast
  then have "candidate e geocode rowData = None"
    by (auto simp: candidate_None_iff)
  then show ?thesis by (rule normalizeRow_candidate_None)
qed

theorem C7_missing_state_or_city_witness:
  "\<not> truthy (no_state ''State'') \<and> \<not> truthy (no_state ''state'')
   \<and> normalizeRow no_key service_down schema_typecheck no_state = None"
proof -
  have m: "\<not> truthy (no_state ''State'')" "\<not> truthy (no_state ''state'')"
    by code_simp+
  then have "(\<not> truthy (no_state ''State'') \<and> \<not> truthy (no_state ''state''))
           \<or> (\<not> truthy (no_state ''City'') \<and> \<not> truthy (no_state ''city''))"
    by blast
  from C7_missing_state_or_city [OF this] m show ?thesis by blast
qed

text \<open>
  C8, as the spec states it, fails in its last part: with no API key, a \<^verbatim>\<open>Latitude\<close>
  cell that holds text without a leading number gives the latitude \<^verbatim>\<open>NaN\<close>, not 0, and
  the gate of line 114 lets the row through.
\<close>

theorem C8_text_latitude_counterexample:
  "text_latitude ''Latitude'' = JStr ''abc''
   \<and> row_coordinates no_key service_down text_latitude = (NaN, Fin (7759 / 100))
   \<and> map_option latitude (candidate no_key service_down text_latitude) = Some NaN"
  by code_simp

lemma coordinates_fallback:
  assumes "\<not> str_truthy (apiKey e) \<or> \<not> truthy (row_state rowData)
           \<or> \<not> truthy (row_city rowData) \<or> unresolved (row_reply e geocode rowData)"
  shows "row_coordinates e geocode rowData = excel_coordinates rowData"
  using assms
  by (auto simp: row_coordinates_def coordinates_def unresolved_def row_reply_def
           split: geocode_reply.splits)

lemma excel_coordinates_falsy:
  "\<not> truthy (rowData ''Latitude'') \<Longrightarrow> \<not> truthy (rowData ''latitude'') \<Longrightarrow>
     fst (excel_coordinates rowData) = Fin 0"
  "\<not> truthy (rowData ''Longitude'') \<Longrightarrow> \<not> truthy (rowData ''longitude'') \<Longrightarrow>
     snd (excel_coordinates rowData) = Fin 0"
proof -
  have z: "parseFloat (JStr ''0'') = Fin 0" by code_simp
  show "\<not> truthy (rowData ''Latitude'') \<Longrightarrow> \<not> truthy (rowData ''latitude'') \<Longrightarrow>
     fst (excel_coordinates rowData) = Fin 0"
    by (simp only: excel_coordinates_def js_or_def if_False fst_conv z)
  show "\<not> truthy (rowData ''Longitude'') \<Longrightarrow> \<not> truthy (rowData ''longitude'') \<Longrightarrow>
     snd (excel_coordinates rowData) = Fin 0"
    by (simp only: excel_coordinates_def js_or_def if_False snd_conv z)
qed

lemma excel_coordinates_number:
  "rowData ''Latitude'' = JNum x \<Longrightarrow> num_truthy x \<Longrightarrow> fst (excel_coordinates rowData) = x"
  "rowData ''Longitude'' = JNum y \<Longrightarrow> num_truthy y \<Longrightarrow> snd (excel_coordinates rowData) = y"
  by (simp_all add: excel_coordinates_def js_or_def)

text \<open>
  C8, amended: for every row, when no API key is configured, or the state or the city is
  empty, or the geocoding call throws, or it returns a status other than \<^verbatim>\<open>OK\<close> or no
  results, the normalizer raises nothing and takes the coordinates from the row's own
  \<^verbatim>\<open>Latitude\<close> and \<^verbatim>\<open>Longitude\<close> columns (either header casing), read with
  \<^verbatim>\<open>parseFloat\<close>: a missing, empty or zero value reads as 0 and a number as itself.
  (Text without a leading number reads as \<^verbatim>\<open>NaN\<close>, not as 0.)
\<close>

theorem C8_fallback:
  assumes "\<not> str_truthy (apiKey e) \<or> \<not> truthy (row_state rowData)
           \<or> \<not> truthy (row_city rowData) \<or> unresolved (row_reply e geocode rowData)"
  shows
    "row_coordinates e geocode rowData = excel_coordinates rowData
     \<and> (\<not> truthy (rowData ''Latitude'') \<and> \<not> truthy (rowData ''latitude'') \<longrightarrow>
          fst (row_coordinates e geocode rowData) = Fin 0)
     \<and> (\<not> truthy (rowData ''Longitude'') \<and> \<not> truthy (rowData ''longitude'') \<longrightarrow>
          snd (row_coordinates e geocode rowData) = Fin 0)
     \<and> (rowData ''Latitude'' = JNum x \<and> num_truthy x \<longrightarrow>
          fst (row_coordinates e geocode rowData) = x)
     \<and> (rowData ''Longitude'' = JNum y \<and> num_truthy y \<longrightarrow>
          snd (row_coordinates e geocode rowData) = y)"
  unfolding coordinates_fallback [OF assms]
  using excel_coordinates_falsy [of rowData] excel_coordinates_number [of rowData]
  by blast

theorem C8_fallback_witness:
  "str_truthy (apiKey with_key)
   \<and> unresolved (row_reply with_key zero_results bengaluru)
   \<and> unresolved (row_reply with_key service_down bengaluru)
   \<and> row_coordinates with_key zero_results bengaluru = (Fin (1297 / 100), Fin (7759 / 100))
   \<and> row_coordinates with_key service_down bengaluru = (Fin (1297 / 100), Fin (7759 / 100))
   \<and> row_coordinates no_key service_down nowhere = (Fin 0, Fin 0)"
proof -
  have k: "str_truthy (apiKey with_key)" "\<not> str_truthy (apiKey no_key)"
    by code_simp+
  have u: "unresolved (row_reply with_key zero_results bengaluru)"
    "unresolved (row_reply with_key service_down bengaluru)"
    by code_simp+
  have x: "excel_coordinates bengaluru = (Fin (1297 / 100), Fin (7759 / 100))"
    "excel_coordinates nowhere = (Fin 0, Fin 0)"
    by code_simp+
  from C8_fallback [of with_key bengaluru zero_results] u(1) x(1)
  have 1: "row_coordinates with_key zero_results bengaluru = (Fin (1297 / 100), Fin (7759 / 100))"
    by simp
  from C8_fallback [of with_key bengaluru service_down] u(2) x(1)
  have 2: "row_coordinates with_key service_down bengaluru = (Fin (1297 / 100), Fin (7759 / 100))"
    by simp
  from C8_fallback [of no_key nowhere service_down] k(2) x(2)
  have 3: "row_coordinates no_key service_down nowhere = (Fin 0, Fin 0)"
    by simp
  from k(1) u 1 2 3 show ?thesis by blast
qed

section \<open>Properties of the upload middleware\<close>

lemma upload_single_rejects:
  assumes "mimetype f \<notin> set allowedTypes \<or> file_size f > 10 * 1024 * 1024"
  shows "\<exists>err. upload_single (Some f) = Inl err"
  using assms by (auto simp: upload_single_def fileFilter_def fileSize_def)

lemma upload_single_content:
  "upload_single (Some (f \<lparr> content := other \<rparr>)) = Inl err \<longleftrightarrow> upload_single (Some f) = Inl err"
  by (auto simp: upload_single_def fileFilter_def split: if_splits)

text \<open>
  C9: for every uploaded file whose MIME type is not one of the three accepted
  spreadsheet types or whose size exceeds 10 MiB, the upload fails with
  \<^verbatim>\<open>UnsupportedUpload\<close>, a 400 response with a message, the store is left as it was, and
  no parsing takes place: the handler is not called, and the outcome is the same whatever
  the bytes of the file would parse to.
\<close>

theorem C9_unsupported_upload:
  assumes "mimetype f \<notin> set allowedTypes \<or> file_size f > 10 * 1024 * 1024"
  shows
    "(\<exists>err. post_upload_excel e geocode valid (Some f) st = (UnsupportedUpload err, st)
            \<and> upload_single (Some f) = Inl err)
     \<and> status (fst (post_upload_excel e geocode valid (Some f) st)) = 400
     \<and> (\<exists>msg. body (fst (post_upload_excel e geocode valid (Some f) st)) = Message msg)
     \<and> snd (post_upload_excel e geocode valid (Some f) st) = st
     \<and> post_upload_excel e geocode valid (Some (f \<lparr> content := other \<rparr>)) st
         = post_upload_excel e geocode valid (Some f) st"
proof -
  from upload_single_rejects [OF assms] obtain err
    where err: "upload_single (Some f) = Inl err" by blast
  then have err': "upload_single (Some (f \<lparr> content := other \<rparr>)) = Inl err"
    by (simp only: upload_single_content)
  have 1: "post_upload_excel e geocode valid (Some f) st = (UnsupportedUpload err, st)"
    by (simp add: post_upload_excel_def err)
  have 2: "post_upload_excel e geocode valid (Some (f \<lparr> content := other \<rparr>)) st
      = (UnsupportedUpload err, st)"
    by (simp add: post_upload_excel_def err')
  from 1 2 err show ?thesis
    by (simp add: UnsupportedUpload_def json_def)
qed

theorem C9_unsupported_upload_witness:
  "mimetype pdf \<notin> set allowedTypes
   \<and> post_upload_excel no_key service_down schema_typecheck (Some pdf) earlier
       = (json 400 (Message ''Invalid file type. Please upload an Excel file.''), earlier)
   \<and> file_size oversize > 10 * 1024 * 1024
   \<and> status (fst (post_upload_excel no_key service_down schema_typecheck (Some oversize)
                     earlier)) = 400
   \<and> snd (post_upload_excel no_key service_down schema_typecheck (Some oversize) earlier)
       = earlier"
proof -
  have p: "mimetype pdf \<notin> set allowedTypes"
    by (simp add: pdf_def allowedTypes_def)
  have o: "file_size oversize > 10 * 1024 * 1024"
    by (simp add: oversize_def xlsx_def)
  have e: "upload_single (Some pdf) = Inl InvalidFileType"
    using p by (simp add: upload_single_def fileFilter_def)
  from C9_unsupported_upload [of pdf no_key service_down schema_typecheck earlier] p e
  have 1: "post_upload_excel no_key service_down schema_typecheck (Some pdf) earlier
       = (json 400 (Message ''Invalid file type. Please upload an Excel file.''), earlier)"
    by (auto simp: UnsupportedUpload_def error_message_def)
  from C9_unsupported_upload [of oversize no_key service_down schema_typecheck earlier] o
  have 2: "status (fst (post_upload_excel no_key service_down schema_typecheck (Some oversize)
                     earlier)) = 400
     \<and> snd (post_upload_excel no_key service_down schema_typecheck (Some oversize) earlier)
       = earlier"
    by blast
  from p 1 o 2 show ?thesis by blast
qed

end
